theory Spec2Isabelle
  imports Complex_Main
begin

section \<open>Calibration-table interpolation of the sounding handler\<close>

text \<open>
  A shallow embedding of the interpolation functions of
  \<^verbatim>\<open>lambda/bunkerwatch-enhanced-handler.js\<close> (\<^verbatim>\<open>getTrimBounds\<close> to
  \<^verbatim>\<open>getCompleteSoundingData\<close>).

  Numbers are modelled as \<^typ>\<open>real\<close>, and there is no NaN or Infinity among
  them. The source computes in IEEE 754 doubles: every arithmetic operation returns the
  exact result rounded to a double. The functions that do arithmetic take that rounding
  as their first argument \<open>fl\<close>; it is \<open>double\<close> for the source, and the identity
  for exact arithmetic. Comparisons and \<^verbatim>\<open>Math.round\<close> are exact on doubles.
  \<^verbatim>\<open>parseFloat\<close> of a number is that number, so it is left out where the argument is
  a number.
\<close>

subsection \<open>Cells, coercions and messages\<close>

text \<open>
  A stored cell is read with \<^verbatim>\<open>parseFloat(row[col])\<close>. \<open>Some v\<close> is a cell that
  \<^verbatim>\<open>parseFloat\<close> reads as the number \<open>v\<close>; \<open>None\<close> is a cell for which it yields
  NaN (SQL NULL, a column that is missing, text that does not start with a number).
\<close>

type_synonym cell = "real option"

text \<open>\<^verbatim>\<open>parseFloat(c) || 0\<close>: NaN and 0 are falsy.\<close>

definition or_zero :: "cell \<Rightarrow> real" where
  "or_zero c = (case c of None \<Rightarrow> 0 | Some v \<Rightarrow> (if v = 0 then 0 else v))"

text \<open>\<^verbatim>\<open>parseFloat(c) || null\<close>.\<close>

definition or_null :: "cell \<Rightarrow> real option" where
  "or_null c = (case c of None \<Rightarrow> None | Some v \<Rightarrow> (if v = 0 then None else Some v))"

text \<open>\<^verbatim>\<open>Math.round\<close>: the nearest integer, a tie going up.\<close>

definition Math_round :: "real \<Rightarrow> int" where
  "Math_round x = \<lfloor>x + 1 / 2\<rfloor>"

text \<open>\<^verbatim>\<open>Math.round(x) || null\<close>.\<close>

definition round_or_null :: "real \<Rightarrow> real option" where
  "round_or_null x = (let n = Math_round x in if n = 0 then None else Some (real_of_int n))"

text \<open>
  An error message is a template literal: fixed text with numbers spliced in. The
  numbers are kept as numbers instead of being printed.
\<close>

datatype message_part = Txt string | Num real

type_synonym message = "message_part list"

fun part_empty :: "message_part \<Rightarrow> bool" where
  "part_empty (Txt s) = (s = [])"
| "part_empty (Num v) = False"

text \<open>The empty string is the only falsy string.\<close>

definition message_falsy :: "message \<Rightarrow> bool" where
  "message_falsy m = list_all part_empty m"

subsection \<open>Axis resolver\<close>

record axis_point =
  val :: real
  column :: string

datatype ('e, 'p) bounds =
    Exact 'e
  | OutOfRange message
  | Bracket 'p 'p

fun outOfRange :: "('e, 'p) bounds \<Rightarrow> bool" where
  "outOfRange (OutOfRange m) = True"
| "outOfRange (Exact e) = False"
| "outOfRange (Bracket l u) = False"

definition trimRanges :: "axis_point list" where
  "trimRanges =
    [\<lparr>val = -4, column = ''trim_minus_4_0''\<rparr>,
     \<lparr>val = -3, column = ''trim_minus_3_0''\<rparr>,
     \<lparr>val = -2, column = ''trim_minus_2_0''\<rparr>,
     \<lparr>val = -1.5, column = ''trim_minus_1_5''\<rparr>,
     \<lparr>val = -1, column = ''trim_minus_1_0''\<rparr>,
     \<lparr>val = -0.5, column = ''trim_minus_0_5''\<rparr>,
     \<lparr>val = 0, column = ''trim_0_0''\<rparr>,
     \<lparr>val = 0.5, column = ''trim_plus_0_5''\<rparr>,
     \<lparr>val = 1, column = ''trim_plus_1_0''\<rparr>,
     \<lparr>val = 1.5, column = ''trim_plus_1_5''\<rparr>,
     \<lparr>val = 2, column = ''trim_plus_2_0''\<rparr>,
     \<lparr>val = 3, column = ''trim_plus_3_0''\<rparr>,
     \<lparr>val = 4, column = ''trim_plus_4_0''\<rparr>]"

definition heelRanges :: "axis_point list" where
  "heelRanges =
    [\<lparr>val = -3, column = ''heel_minus_3_0''\<rparr>,
     \<lparr>val = -2, column = ''heel_minus_2_0''\<rparr>,
     \<lparr>val = -1.5, column = ''heel_minus_1_5''\<rparr>,
     \<lparr>val = -1, column = ''heel_minus_1_0''\<rparr>,
     \<lparr>val = -0.5, column = ''heel_minus_0_5''\<rparr>,
     \<lparr>val = 0, column = ''heel_0_0''\<rparr>,
     \<lparr>val = 0.5, column = ''heel_plus_0_5''\<rparr>,
     \<lparr>val = 1, column = ''heel_plus_1_0''\<rparr>,
     \<lparr>val = 1.5, column = ''heel_plus_1_5''\<rparr>,
     \<lparr>val = 2, column = ''heel_plus_2_0''\<rparr>,
     \<lparr>val = 3, column = ''heel_plus_3_0''\<rparr>]"

text \<open>
  The loop \<^verbatim>\<open>for (i = 0; i < xs.length - 1; i++) if (target > xs[i] && target < xs[i+1]) {...; break}\<close>
  that all four bound finders share: the first adjacent pair around the target.
\<close>

fun bracket_scan :: "('a \<Rightarrow> real) \<Rightarrow> 'a list \<Rightarrow> real \<Rightarrow> ('a \<times> 'a) option" where
  "bracket_scan f (a # b # rest) target =
     (if target > f a \<and> target < f b then Some (a, b) else bracket_scan f (b # rest) target)"
| "bracket_scan f [a] target = None"
| "bracket_scan f [] target = None"

definition getTrimBounds :: "real \<Rightarrow> (string, axis_point) bounds" where
  "getTrimBounds target =
    (case find (\<lambda>t. val t = target) trimRanges of
       Some exactMatch \<Rightarrow> Exact (column exactMatch)
     | None \<Rightarrow>
        (case bracket_scan val trimRanges target of
           None \<Rightarrow>
             if target < val (hd trimRanges)
             then OutOfRange [Txt ''Trim '', Num target,
                    Txt '' is below minimum supported trim '', Num (val (hd trimRanges))]
             else OutOfRange [Txt ''Trim '', Num target,
                    Txt '' is above maximum supported trim '', Num (val (last trimRanges))]
         | Some (lowerTrim, upperTrim) \<Rightarrow> Bracket lowerTrim upperTrim))"

definition getHeelBounds :: "real \<Rightarrow> (string, axis_point) bounds" where
  "getHeelBounds target =
    (case find (\<lambda>h. val h = target) heelRanges of
       Some exactMatch \<Rightarrow> Exact (column exactMatch)
     | None \<Rightarrow>
        (case bracket_scan val heelRanges target of
           None \<Rightarrow>
             if target < val (hd heelRanges)
             then OutOfRange [Txt ''Heel '', Num target,
                    Txt '' is below minimum supported heel '', Num (val (hd heelRanges))]
             else OutOfRange [Txt ''Heel '', Num target,
                    Txt '' is above maximum supported heel '', Num (val (last heelRanges))]
         | Some (lowerHeel, upperHeel) \<Rightarrow> Bracket lowerHeel upperHeel))"

subsection \<open>Machine arithmetic\<close>

text \<open>
  The exponent of a positive number: \<open>expo x = e\<close> where \<open>2 ^ e \<le> x < 2 ^ (e + 1)\<close>.
\<close>

function expo :: "real \<Rightarrow> int" where
  "expo x = (if x \<le> 0 then 0
             else if x < 1 then expo (2 * x) - 1
             else if 2 \<le> x then expo (x / 2) + 1
             else 0)"
  by pat_completeness auto
termination
proof (relation "measure (\<lambda>x. nat \<bar>\<lfloor>log 2 x\<rfloor>\<bar>)")
  show "wf (measure (\<lambda>x. nat \<bar>\<lfloor>log 2 x\<rfloor>\<bar>))" by simp
next
  fix x :: real
  assume a: "\<not> x \<le> 0" "x < 1"
  then have l: "log 2 (2 * x) = 1 + log 2 x" by (simp add: log_mult)
  have "log 2 x < 0" using a by simp
  then have "\<lfloor>log 2 x\<rfloor> \<le> - 1" by linarith
  moreover have "\<lfloor>log 2 (2 * x)\<rfloor> = 1 + \<lfloor>log 2 x\<rfloor>" unfolding l by linarith
  ultimately show "(2 * x, x) \<in> measure (\<lambda>x. nat \<bar>\<lfloor>log 2 x\<rfloor>\<bar>)" by simp
next
  fix x :: real
  assume a: "\<not> x \<le> 0" "\<not> x < 1" "2 \<le> x"
  then have l: "log 2 (x / 2) = log 2 x - 1" by (simp add: log_divide)
  have "1 \<le> log 2 x" using a by (simp add: le_log_iff)
  then have "1 \<le> \<lfloor>log 2 x\<rfloor>" by linarith
  moreover have "\<lfloor>log 2 (x / 2)\<rfloor> = \<lfloor>log 2 x\<rfloor> - 1" unfolding l by linarith
  ultimately show "(x / 2, x) \<in> measure (\<lambda>x. nat \<bar>\<lfloor>log 2 x\<rfloor>\<bar>)" by simp
qed

definition pow2 :: "int \<Rightarrow> real" where
  "pow2 k = (if 0 \<le> k then 2 ^ nat k else 1 / 2 ^ nat (- k))"

text \<open>The nearest integer, a tie going to the even one.\<close>

definition round_half_even :: "real \<Rightarrow> int" where
  "round_half_even y =
     (let f = \<lfloor>y\<rfloor>; d = y - real_of_int f
      in if d < 1 / 2 then f else if 1 / 2 < d then f + 1 else if even f then f else f + 1)"

text \<open>
  IEEE 754 binary64 rounding, to nearest with ties to even: the doubles around \<open>x\<close> are
  the multiples of \<open>2 ^ (e - 52)\<close> where \<open>e\<close> is the exponent of \<open>x\<close>, and of
  \<open>2 ^ - 1074\<close> below \<open>2 ^ - 1022\<close>. A result of magnitude \<open>2 ^ 1024\<close> or more, which
  is Infinity in the source, is outside the model.
\<close>

definition double :: "real \<Rightarrow> real" where
  "double x =
     (let q = pow2 (max (expo \<bar>x\<bar>) (- 1022) - 52)
      in real_of_int (round_half_even (x / q)) * q)"

subsection \<open>Linear interpolator\<close>

text \<open>
  \<^verbatim>\<open>ny1 + (ny2 - ny1) * ((nx - nx1) / (nx2 - nx1))\<close>, each of the five operations
  rounded.
\<close>

definition linearInterpolate ::
    "(real \<Rightarrow> real) \<Rightarrow> real \<Rightarrow> real \<Rightarrow> real \<Rightarrow> real \<Rightarrow> real \<Rightarrow> real" where
  "linearInterpolate fl x1 y1 x2 y2 x =
    (if x1 = x2 then y1
     else fl (y1 + fl (fl (y2 - y1) * fl (fl (x - x1) / fl (x2 - x1)))))"

subsection \<open>The two tables and their queries\<close>

text \<open>
  A row of \<^verbatim>\<open>main_sounding_trim_data\<close> or of \<^verbatim>\<open>heel_correction_data\<close>: its
  compartment, its ullage (the key column, always a number), and the cells of its
  other columns by column name.
\<close>

record db_row =
  compartment_id :: int
  row_ullage :: real
  row_cells :: "string \<Rightarrow> cell"

text \<open>\<^verbatim>\<open>SELECT DISTINCT ullage ... WHERE compartment_id = $1 ORDER BY ullage\<close>\<close>

definition query_ullages :: "db_row list \<Rightarrow> int \<Rightarrow> real list" where
  "query_ullages tbl cid =
     sort (remdups (map row_ullage (filter (\<lambda>r. compartment_id r = cid) tbl)))"

text \<open>
  \<^verbatim>\<open>WHERE compartment_id = $1 AND ullage = $2 LIMIT 1\<close>. The query has no
  \<^verbatim>\<open>ORDER BY\<close>; the model returns the first matching row in table order.
\<close>

definition query_exact :: "db_row list \<Rightarrow> int \<Rightarrow> real \<Rightarrow> db_row list" where
  "query_exact tbl cid u =
     take 1 (filter (\<lambda>r. compartment_id r = cid \<and> row_ullage r = u) tbl)"

text \<open>\<^verbatim>\<open>WHERE compartment_id = $1 AND ullage IN ($2, $3) ORDER BY ullage\<close>\<close>

definition query_in :: "db_row list \<Rightarrow> int \<Rightarrow> real \<Rightarrow> real \<Rightarrow> db_row list" where
  "query_in tbl cid a b =
     sort_key row_ullage
       (filter (\<lambda>r. compartment_id r = cid \<and> (row_ullage r = a \<or> row_ullage r = b)) tbl)"

subsection \<open>Ullage bracket finder\<close>

text \<open>
  \<^verbatim>\<open>getUllageBounds\<close> and \<^verbatim>\<open>getHeelUllageBounds\<close> are the same code over two
  tables with three different message texts; \<open>ullage_bounds_of\<close> is that code with the
  texts as parameters.
\<close>

definition ullage_bounds_of ::
    "string \<Rightarrow> string \<Rightarrow> string \<Rightarrow> real list \<Rightarrow> real \<Rightarrow> (real, real) bounds" where
  "ullage_bounds_of none_txt below_txt above_txt ullages target =
    (case ullages of
       [] \<Rightarrow> OutOfRange [Txt none_txt]
     | first # others \<Rightarrow>
        if List.member ullages target then Exact target
        else
          (case bracket_scan (\<lambda>u. u) ullages target of
             None \<Rightarrow>
               if target < first
               then OutOfRange [Txt ''Ullage '', Num target, Txt below_txt, Num first]
               else OutOfRange [Txt ''Ullage '', Num target, Txt above_txt, Num (last ullages)]
           | Some (lowerUllage, upperUllage) \<Rightarrow> Bracket lowerUllage upperUllage))"

definition getUllageBounds :: "db_row list \<Rightarrow> int \<Rightarrow> real \<Rightarrow> (real, real) bounds" where
  "getUllageBounds tbl compartmentId targetUllage =
     ullage_bounds_of ''No ullage data found for this compartment''
       '' is below minimum ullage '' '' is above maximum ullage ''
       (query_ullages tbl compartmentId) targetUllage"

definition getHeelUllageBounds :: "db_row list \<Rightarrow> int \<Rightarrow> real \<Rightarrow> (real, real) bounds" where
  "getHeelUllageBounds tbl compartmentId targetUllage =
     ullage_bounds_of ''No heel ullage data found for this compartment''
       '' is below minimum heel correction ullage ''
       '' is above maximum heel correction ullage ''
       (query_ullages tbl compartmentId) targetUllage"

subsection \<open>Results\<close>

record bound_pair =
  lower :: real
  upper :: real

text \<open>\<^verbatim>\<open>interpolation_bounds\<close>: the keys \<^verbatim>\<open>ullage\<close>, \<^verbatim>\<open>trim\<close> and \<^verbatim>\<open>heel\<close>.\<close>

record interp_bounds =
  b_ullage :: bound_pair
  b_trim :: "bound_pair option"
  b_heel :: "bound_pair option"

record main_interp =
  m_type :: string
  m_bounds :: "interp_bounds option"

record heel_interp =
  h_type :: string
  h_bounds :: "interp_bounds option"
  h_error :: "message option"

text \<open>What \<^verbatim>\<open>getCompleteSoundingData\<close> returns.\<close>

record complete_data =
  base_volume :: real
  heel_correction :: real
  final_volume :: real
  sound :: "real option"
  ullage :: real
  lcg :: real
  tcg :: real
  vcg :: real
  iy :: real
  main_interpolation :: main_interp
  heel_interpolation :: "heel_interp option"

text \<open>
  What the two evaluators return. A key that the source leaves out of the object
  (\<^verbatim>\<open>interpolation_bounds\<close> in the modes without an ullage bracket) is \<open>None\<close>.
\<close>

record interpolation =
  interpolation_used :: string
  interpolation_bounds :: "interp_bounds option"

record heel_data = interpolation +
  heel_correction :: real

record sounding_data = interpolation +
  volume :: real
  sound :: "real option"
  ullage :: real
  lcg :: real
  tcg :: real
  vcg :: real
  iy :: real

subsection \<open>Heel correction evaluator\<close>

definition getHeelCorrectionWithUllageInterpolation ::
    "(real \<Rightarrow> real) \<Rightarrow> db_row list \<Rightarrow> int \<Rightarrow> real \<Rightarrow> string \<Rightarrow> real \<Rightarrow> message + heel_data" where
  "getHeelCorrectionWithUllageInterpolation fl tbl compartmentId targetUllage heelColumn targetHeel =
    (case getHeelUllageBounds tbl compartmentId targetUllage of
       OutOfRange m \<Rightarrow> Inl m
     | Exact u \<Rightarrow>
        (case query_exact tbl compartmentId u of
           [] \<Rightarrow> Inl [Txt ''No heel correction data found for exact match'']
         | row # rest \<Rightarrow>
            Inr \<lparr>interpolation_used = ''none'', interpolation_bounds = None,
                 heel_correction = or_zero (row_cells row heelColumn)\<rparr>)
     | Bracket lowerUllage upperUllage \<Rightarrow>
        (case query_in tbl compartmentId lowerUllage upperUllage of
           [lowerRow, upperRow] \<Rightarrow>
            Inr \<lparr>interpolation_used = ''ullage_only'',
                 interpolation_bounds = Some
                   \<lparr>b_ullage = \<lparr>lower = lowerUllage, upper = upperUllage\<rparr>,
                    b_trim = None, b_heel = None\<rparr>,
                 heel_correction =
                   linearInterpolate fl
                     lowerUllage (or_zero (row_cells lowerRow heelColumn))
                     upperUllage (or_zero (row_cells upperRow heelColumn))
                     targetUllage\<rparr>
         | _ \<Rightarrow> Inl [Txt ''Insufficient heel correction data for ullage interpolation'']))"

definition getHeelCorrectionWithInterpolation ::
    "(real \<Rightarrow> real) \<Rightarrow> db_row list \<Rightarrow> int \<Rightarrow> real \<Rightarrow> real \<Rightarrow> message + heel_data" where
  "getHeelCorrectionWithInterpolation fl tbl compartmentId targetUllage targetHeel =
    (case getHeelBounds targetHeel of
       OutOfRange m \<Rightarrow> Inl m
     | Exact heelColumn \<Rightarrow>
         getHeelCorrectionWithUllageInterpolation fl tbl compartmentId targetUllage heelColumn targetHeel
     | Bracket lowerHeel upperHeel \<Rightarrow>
        (case getHeelUllageBounds tbl compartmentId targetUllage of
           OutOfRange m \<Rightarrow> Inl m
         | Exact exactUllage \<Rightarrow>
            (case query_exact tbl compartmentId exactUllage of
               [] \<Rightarrow> Inl [Txt ''No heel correction data found for exact ullage match'']
             | row # rest \<Rightarrow>
                Inr \<lparr>interpolation_used = ''heel_only'', interpolation_bounds = None,
                     heel_correction =
                       linearInterpolate fl
                         (val lowerHeel) (or_zero (row_cells row (column lowerHeel)))
                         (val upperHeel) (or_zero (row_cells row (column upperHeel)))
                         targetHeel\<rparr>)
         | Bracket lowerUllage upperUllage \<Rightarrow>
            (case query_in tbl compartmentId lowerUllage upperUllage of
               [lowerUllageRow, upperUllageRow] \<Rightarrow>
                (let correctionAtLowerUllage =
                       linearInterpolate fl
                         (val lowerHeel) (or_zero (row_cells lowerUllageRow (column lowerHeel)))
                         (val upperHeel) (or_zero (row_cells lowerUllageRow (column upperHeel)))
                         targetHeel;
                     correctionAtUpperUllage =
                       linearInterpolate fl
                         (val lowerHeel) (or_zero (row_cells upperUllageRow (column lowerHeel)))
                         (val upperHeel) (or_zero (row_cells upperUllageRow (column upperHeel)))
                         targetHeel;
                     finalCorrection =
                       linearInterpolate fl lowerUllage correctionAtLowerUllage
                         upperUllage correctionAtUpperUllage targetUllage
                 in Inr \<lparr>interpolation_used = ''bilinear'',
                         interpolation_bounds = Some
                           \<lparr>b_ullage = \<lparr>lower = lowerUllage, upper = upperUllage\<rparr>,
                            b_trim = None,
                            b_heel = Some \<lparr>lower = val lowerHeel, upper = val upperHeel\<rparr>\<rparr>,
                         heel_correction = finalCorrection\<rparr>)
             | _ \<Rightarrow> Inl [Txt ''Insufficient heel correction data for bilinear interpolation''])))"

subsection \<open>Sounding evaluator\<close>

text \<open>
  The queries of the source select \<^verbatim>\<open>${trimColumn} as volume\<close>: reading
  \<^verbatim>\<open>row.volume\<close> is reading the cell of \<open>trimColumn\<close>.
\<close>

definition getSoundingWithUllageInterpolation ::
    "(real \<Rightarrow> real) \<Rightarrow> db_row list \<Rightarrow> int \<Rightarrow> real \<Rightarrow> string \<Rightarrow> real \<Rightarrow> message + sounding_data" where
  "getSoundingWithUllageInterpolation fl tbl compartmentId targetUllage trimColumn targetTrim =
    (case getUllageBounds tbl compartmentId targetUllage of
       OutOfRange m \<Rightarrow> Inl m
     | Exact u \<Rightarrow>
        (case query_exact tbl compartmentId u of
           [] \<Rightarrow> Inl [Txt ''No data found for exact match'']
         | row # rest \<Rightarrow>
            Inr \<lparr>interpolation_used = ''none'', interpolation_bounds = None,
                 volume = or_zero (row_cells row trimColumn),
                 sound = or_null (row_cells row ''sound''),
                 ullage = row_ullage row,
                 lcg = or_zero (row_cells row ''lcg''),
                 tcg = or_zero (row_cells row ''tcg''),
                 vcg = or_zero (row_cells row ''vcg''),
                 iy = or_zero (row_cells row ''iy'')\<rparr>)
     | Bracket lowerUllage upperUllage \<Rightarrow>
        (case query_in tbl compartmentId lowerUllage upperUllage of
           [lowerRow, upperRow] \<Rightarrow>
            (let interpolateValue = (\<lambda>prop.
                   linearInterpolate fl
                     lowerUllage (or_zero (row_cells lowerRow prop))
                     upperUllage (or_zero (row_cells upperRow prop))
                     targetUllage)
             in Inr \<lparr>interpolation_used = ''ullage_only'',
                     interpolation_bounds = Some
                       \<lparr>b_ullage = \<lparr>lower = lowerUllage, upper = upperUllage\<rparr>,
                        b_trim = None, b_heel = None\<rparr>,
                     volume = interpolateValue trimColumn,
                     sound = round_or_null (interpolateValue ''sound''),
                     ullage = targetUllage,
                     lcg = interpolateValue ''lcg'',
                     tcg = interpolateValue ''tcg'',
                     vcg = interpolateValue ''vcg'',
                     iy = interpolateValue ''iy''\<rparr>)
         | _ \<Rightarrow> Inl [Txt ''Insufficient data for ullage interpolation'']))"

definition getSoundingDataWithInterpolation ::
    "(real \<Rightarrow> real) \<Rightarrow> db_row list \<Rightarrow> int \<Rightarrow> real \<Rightarrow> real \<Rightarrow> message + sounding_data" where
  "getSoundingDataWithInterpolation fl tbl compartmentId targetUllage targetTrim =
    (case getTrimBounds targetTrim of
       OutOfRange m \<Rightarrow> Inl m
     | Exact trimColumn \<Rightarrow>
         getSoundingWithUllageInterpolation fl tbl compartmentId targetUllage trimColumn targetTrim
     | Bracket lowerTrim upperTrim \<Rightarrow>
        (case getUllageBounds tbl compartmentId targetUllage of
           OutOfRange m \<Rightarrow> Inl m
         | Exact exactUllage \<Rightarrow>
            (case query_exact tbl compartmentId exactUllage of
               [] \<Rightarrow> Inl [Txt ''No data found for exact ullage match'']
             | row # rest \<Rightarrow>
                Inr \<lparr>interpolation_used = ''trim_only'', interpolation_bounds = None,
                     volume =
                       linearInterpolate fl
                         (val lowerTrim) (or_zero (row_cells row (column lowerTrim)))
                         (val upperTrim) (or_zero (row_cells row (column upperTrim)))
                         targetTrim,
                     sound = or_null (row_cells row ''sound''),
                     ullage = targetUllage,
                     lcg = or_zero (row_cells row ''lcg''),
                     tcg = or_zero (row_cells row ''tcg''),
                     vcg = or_zero (row_cells row ''vcg''),
                     iy = or_zero (row_cells row ''iy'')\<rparr>)
         | Bracket lowerUllage upperUllage \<Rightarrow>
            (case query_in tbl compartmentId lowerUllage upperUllage of
               [lowerUllageRow, upperUllageRow] \<Rightarrow>
                (let volumeAtLowerUllage =
                       linearInterpolate fl
                         (val lowerTrim) (or_zero (row_cells lowerUllageRow (column lowerTrim)))
                         (val upperTrim) (or_zero (row_cells lowerUllageRow (column upperTrim)))
                         targetTrim;
                     volumeAtUpperUllage =
                       linearInterpolate fl
                         (val lowerTrim) (or_zero (row_cells upperUllageRow (column lowerTrim)))
                         (val upperTrim) (or_zero (row_cells upperUllageRow (column upperTrim)))
                         targetTrim;
                     finalVolume =
                       linearInterpolate fl lowerUllage volumeAtLowerUllage
                         upperUllage volumeAtUpperUllage targetUllage;
                     interpolateProperty = (\<lambda>prop.
                       linearInterpolate fl
                         lowerUllage (or_zero (row_cells lowerUllageRow prop))
                         upperUllage (or_zero (row_cells upperUllageRow prop))
                         targetUllage)
                 in Inr \<lparr>interpolation_used = ''bilinear'',
                         interpolation_bounds = Some
                           \<lparr>b_ullage = \<lparr>lower = lowerUllage, upper = upperUllage\<rparr>,
                            b_trim = Some \<lparr>lower = val lowerTrim, upper = val upperTrim\<rparr>,
                            b_heel = None\<rparr>,
                         volume = finalVolume,
                         sound = round_or_null
                           (linearInterpolate fl
                              lowerUllage (or_zero (row_cells lowerUllageRow ''sound''))
                              upperUllage (or_zero (row_cells upperUllageRow ''sound''))
                              targetUllage),
                         ullage = targetUllage,
                         lcg = interpolateProperty ''lcg'',
                         tcg = interpolateProperty ''tcg'',
                         vcg = interpolateProperty ''vcg'',
                         iy = interpolateProperty ''iy''\<rparr>)
             | _ \<Rightarrow> Inl [Txt ''Insufficient data for bilinear interpolation''])))"

subsection \<open>Composite query resolver\<close>

text \<open>The heel argument as the handler passes it on: left out, null, or a number.\<close>

datatype js_heel = Undefined | Null | Number real

text \<open>
  \<open>heelCorrectionData\<close> stays \<open>None\<close> (null) when the heel stage is skipped, is
  \<open>Some (Inr d)\<close> when it returns \<open>d\<close>, and \<open>Some (Inl m)\<close> stands for the object
  \<^verbatim>\<open>{error: m, heel_correction: 0}\<close> of the catch block.
\<close>

definition getCompleteSoundingData ::
    "(real \<Rightarrow> real) \<Rightarrow> db_row list \<Rightarrow> db_row list \<Rightarrow> int \<Rightarrow> real \<Rightarrow> real \<Rightarrow> js_heel \<Rightarrow> message + complete_data" where
  "getCompleteSoundingData fl soundingTbl heelTbl compartmentId targetUllage targetTrim targetHeel =
    (case getSoundingDataWithInterpolation fl soundingTbl compartmentId targetUllage targetTrim of
       Inl e \<Rightarrow> Inl e
     | Inr baseSoundingData \<Rightarrow>
        (let heelCorrectionData =
               (case targetHeel of
                  Undefined \<Rightarrow> None
                | Null \<Rightarrow> None
                | Number h \<Rightarrow>
                    if h \<noteq> 0
                    then Some (getHeelCorrectionWithInterpolation fl heelTbl compartmentId targetUllage h)
                    else None);
             finalVolume =
               (case heelCorrectionData of
                  Some (Inr d) \<Rightarrow> fl (volume baseSoundingData + heel_correction d)
                | _ \<Rightarrow> volume baseSoundingData)
         in Inr \<lparr>base_volume = volume baseSoundingData,
                 complete_data.heel_correction =
                   (case heelCorrectionData of
                      None \<Rightarrow> 0
                    | Some (Inl m) \<Rightarrow> 0
                    | Some (Inr d) \<Rightarrow> heel_correction d),
                 final_volume = finalVolume,
                 complete_data.sound = sound baseSoundingData,
                 complete_data.ullage = ullage baseSoundingData,
                 complete_data.lcg = lcg baseSoundingData,
                 complete_data.tcg = tcg baseSoundingData,
                 complete_data.vcg = vcg baseSoundingData,
                 complete_data.iy = iy baseSoundingData,
                 main_interpolation =
                   \<lparr>m_type = interpolation_used baseSoundingData,
                    m_bounds = interpolation_bounds baseSoundingData\<rparr>,
                 heel_interpolation =
                   (case heelCorrectionData of
                      None \<Rightarrow> None
                    | Some (Inl m) \<Rightarrow>
                        Some \<lparr>h_type = ''error'', h_bounds = None,
                              h_error = (if message_falsy m then None else Some m)\<rparr>
                    | Some (Inr d) \<Rightarrow>
                        Some \<lparr>h_type = (if interpolation_used d = [] then ''error''
                                        else interpolation_used d),
                              h_bounds = interpolation_bounds d,
                              h_error = None\<rparr>)\<rparr>))"

subsection \<open>The specification's two-stage interpolation\<close>

text \<open>
  The interpolation as the specification words it, for comparison with the code: in
  each of the two bracketing ullage rows interpolate across the two bracketing axis
  columns (a pair holds a row's values in the lower and the upper column), then
  interpolate the two results across the ullage bracket.
\<close>

definition spec_two_stage ::
    "(real \<Rightarrow> real) \<Rightarrow> axis_point \<Rightarrow> axis_point \<Rightarrow> real \<Rightarrow> real \<Rightarrow> real \<Rightarrow> real \<Rightarrow>
     real \<times> real \<Rightarrow> real \<times> real \<Rightarrow> real" where
  "spec_two_stage fl lowerPoint upperPoint x lowerUllage upperUllage u atLowerRow atUpperRow =
     linearInterpolate fl
       lowerUllage (linearInterpolate fl (val lowerPoint) (fst atLowerRow)
                      (val upperPoint) (snd atLowerRow) x)
       upperUllage (linearInterpolate fl (val lowerPoint) (fst atUpperRow)
                      (val upperPoint) (snd atUpperRow) x)
       u"

text \<open>A row with every cell that is not a number replaced by the number 0.\<close>

definition zero_fill :: "db_row \<Rightarrow> db_row" where
  "zero_fill r = r\<lparr>row_cells := (\<lambda>c. case row_cells r c of None \<Rightarrow> Some 0 | Some v \<Rightarrow> Some v)\<rparr>"

subsection \<open>Example data\<close>

text \<open>
  Compartment 1 has ullage rows 100 and 200 with \<^verbatim>\<open>trim_0_0\<close> 50 and 70 and a stored
  sound of 0; compartment 2 has ullage rows 10 and 20 with sounds 3 and 4.
\<close>

definition row_1_100 :: db_row where
  "row_1_100 =
     \<lparr>compartment_id = 1, row_ullage = 100,
      row_cells = map_of [(''trim_0_0'', 50), (''trim_plus_0_5'', 54), (''sound'', 0),
                          (''lcg'', 10), (''tcg'', 1), (''vcg'', 2), (''iy'', 30)]\<rparr>"

definition row_1_200 :: db_row where
  "row_1_200 =
     \<lparr>compartment_id = 1, row_ullage = 200,
      row_cells = map_of [(''trim_0_0'', 70), (''trim_plus_0_5'', 78), (''sound'', 0),
                          (''lcg'', 12), (''tcg'', 3), (''vcg'', 4), (''iy'', 50)]\<rparr>"

definition row_2_10 :: db_row where
  "row_2_10 =
     \<lparr>compartment_id = 2, row_ullage = 10,
      row_cells = map_of [(''trim_0_0'', 5), (''trim_plus_0_5'', 6), (''sound'', 3)]\<rparr>"

definition row_2_20 :: db_row where
  "row_2_20 =
     \<lparr>compartment_id = 2, row_ullage = 20,
      row_cells = map_of [(''trim_0_0'', 7), (''trim_plus_0_5'', 9), (''sound'', 4)]\<rparr>"

definition example_tbl :: "db_row list" where
  "example_tbl = [row_1_100, row_1_200, row_2_10, row_2_20]"

text \<open>A heel table with one row for compartment 1.\<close>

definition example_heel_tbl :: "db_row list" where
  "example_heel_tbl =
    [\<lparr>compartment_id = 1, row_ullage = 150,
      row_cells = map_of [(''heel_0_0'', 0), (''heel_plus_1_0'', 2)]\<rparr>]"

text \<open>
  Compartment 3 has ullage rows 10 and 17 with sounds 21 and 0: at ullage 14.5 the
  interpolated sound is 7.5 in exact arithmetic and just below it in doubles.
\<close>

definition row_3_10 :: db_row where
  "row_3_10 =
     \<lparr>compartment_id = 3, row_ullage = 10,
      row_cells = map_of [(''trim_0_0'', 5), (''trim_plus_0_5'', 6), (''sound'', 21)]\<rparr>"

definition row_3_17 :: db_row where
  "row_3_17 =
     \<lparr>compartment_id = 3, row_ullage = 17,
      row_cells = map_of [(''trim_0_0'', 7), (''trim_plus_0_5'', 9), (''sound'', 0)]\<rparr>"

definition tie_tbl :: "db_row list" where
  "tie_tbl = [row_3_10, row_3_17]"

text \<open>
  Compartment 4 has rows with cells that are not numbers: the row at ullage 10 has no
  readable \<^verbatim>\<open>trim_0_0\<close>, \<^verbatim>\<open>sound\<close> or \<^verbatim>\<open>lcg\<close>, the row at ullage 20 no
  readable \<^verbatim>\<open>trim_plus_0_5\<close>; in the heel table the row at ullage 10 has no readable
  \<^verbatim>\<open>heel_plus_1_0\<close> and the row at ullage 20 no readable \<^verbatim>\<open>heel_plus_0_5\<close>.
\<close>

definition row_4_10 :: db_row where
  "row_4_10 =
     \<lparr>compartment_id = 4, row_ullage = 10,
      row_cells = map_of [(''trim_plus_0_5'', 6), (''tcg'', 1), (''vcg'', 2), (''iy'', 3)]\<rparr>"

definition row_4_20 :: db_row where
  "row_4_20 =
     \<lparr>compartment_id = 4, row_ullage = 20,
      row_cells = map_of [(''trim_0_0'', 8), (''sound'', 5), (''lcg'', 4), (''tcg'', 3),
                          (''vcg'', 6), (''iy'', 7)]\<rparr>"

definition gap_tbl :: "db_row list" where
  "gap_tbl = [row_4_10, row_4_20]"

definition heel_row_4_10 :: db_row where
  "heel_row_4_10 =
     \<lparr>compartment_id = 4, row_ullage = 10, row_cells = map_of [(''heel_plus_0_5'', 1)]\<rparr>"

definition heel_row_4_20 :: db_row where
  "heel_row_4_20 =
     \<lparr>compartment_id = 4, row_ullage = 20, row_cells = map_of [(''heel_plus_1_0'', 2)]\<rparr>"

definition gap_heel_tbl :: "db_row list" where
  "gap_heel_tbl = [heel_row_4_10, heel_row_4_20]"

section \<open>Properties\<close>

subsection \<open>Linear interpolator\<close>

text \<open>
  C8. The linear interpolator is a total function with no error value, and when the
  two abscissae coincide it returns \<open>y1\<close>, whatever \<open>y2\<close>, the query abscissa and
  the rounding of the arithmetic are; in particular \<open>interpolate(x, y1, x, y2, x) = y1\<close>.
\<close>

theorem linearInterpolate_degenerate:
  "linearInterpolate fl x y1 x y2 x = y1 \<and> linearInterpolate fl x y1 x y2 q = y1"
  by (simp add: linearInterpolate_def)

subsection \<open>The bracket scan on a strictly increasing list\<close>

lemma bracket_scan_nth:
  "sorted_wrt (<) (map f xs) \<Longrightarrow> Suc i < length xs \<Longrightarrow> f (xs ! i) < t \<Longrightarrow> t < f (xs ! Suc i)
   \<Longrightarrow> bracket_scan f xs t = Some (xs ! i, xs ! Suc i)"
proof (induction f xs t arbitrary: i rule: bracket_scan.induct)
  case (1 f a b rest target)
  show ?case
  proof (cases i)
    case 0
    with 1 show ?thesis by simp
  next
    case (Suc j)
    have "f b \<le> f ((b # rest) ! j)"
      using 1(2,3) Suc by (cases j) (auto simp: less_imp_le)
    then have "\<not> (target < f b)" using 1(4) Suc by simp
    moreover have "bracket_scan f (b # rest) target = Some ((b # rest) ! j, (b # rest) ! Suc j)"
      using 1 Suc calculation by (intro 1(1)) auto
    ultimately show ?thesis using Suc by simp
  qed
qed simp_all

lemma bracket_scan_Some:
  "bracket_scan f xs t = Some (a, b) \<Longrightarrow>
     \<exists>i. Suc i < length xs \<and> a = xs ! i \<and> b = xs ! Suc i \<and> f a < t \<and> t < f b"
proof (induction f xs t rule: bracket_scan.induct)
  case (1 f a' b' rest target)
  show ?case
  proof (cases "target > f a' \<and> target < f b'")
    case True
    with 1(2) have "a = a'" "b = b'" by simp_all
    with True show ?thesis by (intro exI[of _ 0]) simp
  next
    case False
    with 1 obtain i where "Suc i < length (b' # rest)" "a = (b' # rest) ! i" "b = (b' # rest) ! Suc i"
      "f a < target" "target < f b" by auto
    then show ?thesis by (intro exI[of _ "Suc i"]) simp
  qed
qed simp_all

lemma bracket_scan_None:
  "sorted_wrt (<) (map f xs) \<Longrightarrow> xs \<noteq> [] \<Longrightarrow> bracket_scan f xs t = None \<Longrightarrow> t \<notin> f ` set xs
   \<Longrightarrow> t < f (hd xs) \<or> f (last xs) < t"
proof (induction f xs t rule: bracket_scan.induct)
  case (1 f a b rest target)
  then show ?case by (auto split: if_splits)
next
  case (2 f a target)
  then show ?case by auto
qed simp

lemma find_distinct_key:
  "distinct (map f xs) \<Longrightarrow> p \<in> set xs \<Longrightarrow> find (\<lambda>t. f t = f p) xs = Some p"
  by (induction xs) (auto simp: image_iff)

lemma find_None_key: "t \<notin> f ` set xs \<Longrightarrow> find (\<lambda>p. f p = t) xs = None"
  by (auto simp: find_None_iff)

lemma trimRanges_sorted: "sorted_wrt (<) (map val trimRanges)"
  by (simp add: trimRanges_def)

lemma heelRanges_sorted: "sorted_wrt (<) (map val heelRanges)"
  by (simp add: heelRanges_def)

lemma strict_sorted_distinct: "sorted_wrt (<) (ys :: real list) \<Longrightarrow> distinct ys"
  by (induction ys) auto

lemma strict_sorted_between:
  fixes ys :: "real list"
  shows "sorted_wrt (<) ys \<Longrightarrow> Suc i < length ys \<Longrightarrow> ys ! i < t \<Longrightarrow> t < ys ! Suc i \<Longrightarrow> t \<notin> set ys"
proof
  assume s: "sorted_wrt (<) ys" and i: "Suc i < length ys" and lo: "ys ! i < t" and hi: "t < ys ! Suc i"
    and "t \<in> set ys"
  then obtain j where j: "j < length ys" "ys ! j = t" by (auto simp: in_set_conv_nth)
  have "i < j" using s lo j i by (metis sorted_wrt_nth_less not_less_iff_gr_or_eq Suc_lessD linorder_neqE_nat)
  moreover have "j < Suc i" using s hi j i by (metis sorted_wrt_nth_less not_less_iff_gr_or_eq linorder_neqE_nat)
  ultimately show False by simp
qed

subsection \<open>Axis resolver\<close>

lemma getTrimBounds_exact:
  assumes "p \<in> set trimRanges"
  shows "getTrimBounds (val p) = Exact (column p)"
proof -
  have "distinct (map val trimRanges)"
    using trimRanges_sorted by (rule strict_sorted_distinct)
  then have "find (\<lambda>t. val t = val p) trimRanges = Some p"
    using assms by (rule find_distinct_key)
  then show ?thesis by (simp add: getTrimBounds_def)
qed

lemma getTrimBounds_bracket:
  assumes i: "Suc i < length trimRanges"
    and lo: "val (trimRanges ! i) < t" and hi: "t < val (trimRanges ! Suc i)"
  shows "getTrimBounds t = Bracket (trimRanges ! i) (trimRanges ! Suc i)"
proof -
  have "t \<notin> set (map val trimRanges)"
    using trimRanges_sorted i lo hi by (intro strict_sorted_between[where i = i]) simp_all
  then have "find (\<lambda>p. val p = t) trimRanges = None"
    by (intro find_None_key) simp
  moreover have "bracket_scan val trimRanges t = Some (trimRanges ! i, trimRanges ! Suc i)"
    using trimRanges_sorted i lo hi by (rule bracket_scan_nth)
  ultimately show ?thesis by (simp add: getTrimBounds_def)
qed

lemma getTrimBounds_below:
  "t < - 4 \<Longrightarrow> getTrimBounds t =
     OutOfRange [Txt ''Trim '', Num t, Txt '' is below minimum supported trim '', Num (- 4)]"
  by (simp add: getTrimBounds_def trimRanges_def)

lemma getTrimBounds_above:
  "4 < t \<Longrightarrow> getTrimBounds t =
     OutOfRange [Txt ''Trim '', Num t, Txt '' is above maximum supported trim '', Num 4]"
  by (simp add: getTrimBounds_def trimRanges_def)

lemma getTrimBounds_outOfRange: "outOfRange (getTrimBounds t) \<longleftrightarrow> t < - 4 \<or> 4 < t"
proof
  assume "t < - 4 \<or> 4 < t"
  then show "outOfRange (getTrimBounds t)"
    using getTrimBounds_below[of t] getTrimBounds_above[of t] by auto
next
  assume o: "outOfRange (getTrimBounds t)"
  then have f: "find (\<lambda>p. val p = t) trimRanges = None"
    by (auto simp: getTrimBounds_def split: option.splits)
  with o have b: "bracket_scan val trimRanges t = None"
    by (auto simp: getTrimBounds_def split: option.splits)
  from f have "t \<notin> val ` set trimRanges" by (auto simp: find_None_iff)
  with b have "t < val (hd trimRanges) \<or> val (last trimRanges) < t"
    using trimRanges_sorted by (intro bracket_scan_None) (simp_all add: trimRanges_def)
  then show "t < - 4 \<or> 4 < t" by (simp add: trimRanges_def)
qed

lemma getHeelBounds_exact:
  assumes "p \<in> set heelRanges"
  shows "getHeelBounds (val p) = Exact (column p)"
proof -
  have "distinct (map val heelRanges)"
    using heelRanges_sorted by (rule strict_sorted_distinct)
  then have "find (\<lambda>t. val t = val p) heelRanges = Some p"
    using assms by (rule find_distinct_key)
  then show ?thesis by (simp add: getHeelBounds_def)
qed

lemma getHeelBounds_bracket:
  assumes i: "Suc i < length heelRanges"
    and lo: "val (heelRanges ! i) < t" and hi: "t < val (heelRanges ! Suc i)"
  shows "getHeelBounds t = Bracket (heelRanges ! i) (heelRanges ! Suc i)"
proof -
  have "t \<notin> set (map val heelRanges)"
    using heelRanges_sorted i lo hi by (intro strict_sorted_between[where i = i]) simp_all
  then have "find (\<lambda>p. val p = t) heelRanges = None"
    by (intro find_None_key) simp
  moreover have "bracket_scan val heelRanges t = Some (heelRanges ! i, heelRanges ! Suc i)"
    using heelRanges_sorted i lo hi by (rule bracket_scan_nth)
  ultimately show ?thesis by (simp add: getHeelBounds_def)
qed

lemma getHeelBounds_below:
  "t < - 3 \<Longrightarrow> getHeelBounds t =
     OutOfRange [Txt ''Heel '', Num t, Txt '' is below minimum supported heel '', Num (- 3)]"
  by (simp add: getHeelBounds_def heelRanges_def)

lemma getHeelBounds_above:
  "3 < t \<Longrightarrow> getHeelBounds t =
     OutOfRange [Txt ''Heel '', Num t, Txt '' is above maximum supported heel '', Num 3]"
  by (simp add: getHeelBounds_def heelRanges_def)

lemma getHeelBounds_outOfRange: "outOfRange (getHeelBounds t) \<longleftrightarrow> t < - 3 \<or> 3 < t"
proof
  assume "t < - 3 \<or> 3 < t"
  then show "outOfRange (getHeelBounds t)"
    using getHeelBounds_below[of t] getHeelBounds_above[of t] by auto
next
  assume o: "outOfRange (getHeelBounds t)"
  then have f: "find (\<lambda>p. val p = t) heelRanges = None"
    by (auto simp: getHeelBounds_def split: option.splits)
  with o have b: "bracket_scan val heelRanges t = None"
    by (auto simp: getHeelBounds_def split: option.splits)
  from f have "t \<notin> val ` set heelRanges" by (auto simp: find_None_iff)
  with b have "t < val (hd heelRanges) \<or> val (last heelRanges) < t"
    using heelRanges_sorted by (intro bracket_scan_None) (simp_all add: heelRanges_def)
  then show "t < - 3 \<or> 3 < t" by (simp add: heelRanges_def)
qed

text \<open>
  C5. Trim axis (13 levels) and heel axis (11 levels): a value equal to a level
  resolves to \<open>Exact\<close> with that level's column, so the minimum and the maximum
  themselves are in range; a value strictly between two adjacent levels resolves to
  the \<open>Bracket\<close> of that pair; a value below the minimum or above the maximum
  resolves to \<open>OutOfRange\<close> with a message that names the violated bound and the
  offending value, and no other value is out of range.
\<close>

theorem axis_resolver_cases:
  "(p \<in> set trimRanges \<longrightarrow> getTrimBounds (val p) = Exact (column p)) \<and>
   (Suc i < length trimRanges \<and> val (trimRanges ! i) < t \<and> t < val (trimRanges ! Suc i) \<longrightarrow>
      getTrimBounds t = Bracket (trimRanges ! i) (trimRanges ! Suc i)) \<and>
   (tlo < - 4 \<longrightarrow> getTrimBounds tlo =
      OutOfRange [Txt ''Trim '', Num tlo, Txt '' is below minimum supported trim '', Num (- 4)]) \<and>
   (4 < thi \<longrightarrow> getTrimBounds thi =
      OutOfRange [Txt ''Trim '', Num thi, Txt '' is above maximum supported trim '', Num 4]) \<and>
   (outOfRange (getTrimBounds x) \<longleftrightarrow> x < - 4 \<or> 4 < x) \<and>
   map val trimRanges = [- 4, - 3, - 2, - 1.5, - 1, - 0.5, 0, 0.5, 1, 1.5, 2, 3, 4] \<and>
   (q \<in> set heelRanges \<longrightarrow> getHeelBounds (val q) = Exact (column q)) \<and>
   (Suc j < length heelRanges \<and> val (heelRanges ! j) < h \<and> h < val (heelRanges ! Suc j) \<longrightarrow>
      getHeelBounds h = Bracket (heelRanges ! j) (heelRanges ! Suc j)) \<and>
   (hlo < - 3 \<longrightarrow> getHeelBounds hlo =
      OutOfRange [Txt ''Heel '', Num hlo, Txt '' is below minimum supported heel '', Num (- 3)]) \<and>
   (3 < hhi \<longrightarrow> getHeelBounds hhi =
      OutOfRange [Txt ''Heel '', Num hhi, Txt '' is above maximum supported heel '', Num 3]) \<and>
   (outOfRange (getHeelBounds y) \<longleftrightarrow> y < - 3 \<or> 3 < y) \<and>
   map val heelRanges = [- 3, - 2, - 1.5, - 1, - 0.5, 0, 0.5, 1, 1.5, 2, 3]"
  using getTrimBounds_exact[of p] getTrimBounds_bracket[of i t] getTrimBounds_below[of tlo]
    getTrimBounds_above[of thi] getTrimBounds_outOfRange[of x]
    getHeelBounds_exact[of q] getHeelBounds_bracket[of j h] getHeelBounds_below[of hlo]
    getHeelBounds_above[of hhi] getHeelBounds_outOfRange[of y]
  by (simp add: trimRanges_def heelRanges_def)

theorem axis_resolver_cases_witness:
  "getTrimBounds (- 4) = Exact ''trim_minus_4_0'' \<and>
   getTrimBounds (1 / 4) =
     Bracket \<lparr>val = 0, column = ''trim_0_0''\<rparr> \<lparr>val = 0.5, column = ''trim_plus_0_5''\<rparr> \<and>
   getTrimBounds (- 5) =
     OutOfRange [Txt ''Trim '', Num (- 5), Txt '' is below minimum supported trim '', Num (- 4)] \<and>
   getTrimBounds 5 =
     OutOfRange [Txt ''Trim '', Num 5, Txt '' is above maximum supported trim '', Num 4] \<and>
   \<not> outOfRange (getTrimBounds 4) \<and>
   getHeelBounds 3 = Exact ''heel_plus_3_0'' \<and>
   getHeelBounds (- 5 / 2) =
     Bracket \<lparr>val = - 3, column = ''heel_minus_3_0''\<rparr> \<lparr>val = - 2, column = ''heel_minus_2_0''\<rparr> \<and>
   getHeelBounds (- 4) =
     OutOfRange [Txt ''Heel '', Num (- 4), Txt '' is below minimum supported heel '', Num (- 3)] \<and>
   getHeelBounds 4 =
     OutOfRange [Txt ''Heel '', Num 4, Txt '' is above maximum supported heel '', Num 3] \<and>
   \<not> outOfRange (getHeelBounds (- 3))"
  using axis_resolver_cases[where p = "\<lparr>val = - 4, column = ''trim_minus_4_0''\<rparr>" and i = 6
      and t = "1 / 4" and tlo = "- 5" and thi = 5 and x = 4
      and q = "\<lparr>val = 3, column = ''heel_plus_3_0''\<rparr>" and j = 0
      and h = "- 5 / 2" and hlo = "- 4" and hhi = 4 and y = "- 3"]
  by (simp add: trimRanges_def heelRanges_def)

subsection \<open>Ullage bracket finder\<close>

lemma query_ullages_sorted: "sorted_wrt (<) (query_ullages tbl cid)"
  by (simp add: query_ullages_def strict_sorted_iff)

lemma set_query_ullages:
  "set (query_ullages tbl cid) = row_ullage ` {r \<in> set tbl. compartment_id r = cid}"
  by (auto simp: query_ullages_def)

lemma query_ullages_empty:
  "query_ullages tbl cid = [] \<longleftrightarrow> filter (\<lambda>r. compartment_id r = cid) tbl = []"
proof -
  have "query_ullages tbl cid = [] \<longleftrightarrow> set (query_ullages tbl cid) = {}" by simp
  also have "\<dots> \<longleftrightarrow> {r \<in> set tbl. compartment_id r = cid} = {}"
    unfolding set_query_ullages by simp
  also have "\<dots> \<longleftrightarrow> filter (\<lambda>r. compartment_id r = cid) tbl = []"
    by (auto simp: filter_empty_conv)
  finally show ?thesis .
qed

lemma ullage_bounds_of_empty:
  "ullage_bounds_of n b a [] t = OutOfRange [Txt n]"
  by (simp add: ullage_bounds_of_def)

lemma ullage_bounds_of_exact:
  "t \<in> set us \<Longrightarrow> ullage_bounds_of n b a us t = Exact t"
  by (cases us) (auto simp: ullage_bounds_of_def)

lemma ullage_bounds_of_bracket:
  assumes s: "sorted_wrt (<) us" and i: "Suc i < length us"
    and lo: "us ! i < t" and hi: "t < us ! Suc i"
  shows "ullage_bounds_of n b a us t = Bracket (us ! i) (us ! Suc i)"
proof -
  have "t \<notin> set us" using s i lo hi by (rule strict_sorted_between)
  moreover have "bracket_scan (\<lambda>u. u) us t = Some (us ! i, us ! Suc i)"
    using s i lo hi by (intro bracket_scan_nth) simp_all
  ultimately show ?thesis using i
    by (cases us) (auto simp: ullage_bounds_of_def)
qed

lemma ullage_bounds_of_BracketD:
  assumes "ullage_bounds_of n b a us t = Bracket lo hi"
  shows "lo \<in> set us \<and> hi \<in> set us \<and> lo < t \<and> t < hi"
proof -
  from assms have "bracket_scan (\<lambda>u. u) us t = Some (lo, hi)"
    by (auto simp: ullage_bounds_of_def split: list.splits if_splits option.splits)
  from bracket_scan_Some[OF this] show ?thesis by auto
qed

lemma ullage_bounds_of_ExactD:
  "ullage_bounds_of n b a us t = Exact u \<Longrightarrow> u = t \<and> t \<in> set us"
  by (auto simp: ullage_bounds_of_def split: list.splits if_splits option.splits)

lemma ullage_bounds_of_nonempty_message:
  "us \<noteq> [] \<Longrightarrow> ullage_bounds_of n b a us t \<noteq> OutOfRange [Txt n]"
  by (auto simp: ullage_bounds_of_def split: list.splits if_splits option.splits)

text \<open>
  C7 as amended. A compartment with no row makes both ullage bracket finders return a
  result flagged \<open>outOfRange\<close> whose message is the fixed text
  "No ullage data found for this compartment" (sounding table) or
  "No heel ullage data found for this compartment" (heel table); a compartment that
  has a row never gets that message.
\<close>

theorem empty_ullage_set_message:
  "(filter (\<lambda>r. compartment_id r = cid) tbl = [] \<longrightarrow>
      getUllageBounds tbl cid u = OutOfRange [Txt ''No ullage data found for this compartment'']
      \<and> getHeelUllageBounds tbl cid u =
            OutOfRange [Txt ''No heel ullage data found for this compartment'']) \<and>
   (filter (\<lambda>r. compartment_id r = cid') tbl' \<noteq> [] \<longrightarrow>
      getUllageBounds tbl' cid' u' \<noteq> OutOfRange [Txt ''No ullage data found for this compartment'']
      \<and> getHeelUllageBounds tbl' cid' u' \<noteq>
            OutOfRange [Txt ''No heel ullage data found for this compartment''])"
  using ullage_bounds_of_nonempty_message[of "query_ullages tbl' cid'"]
  by (simp add: getUllageBounds_def getHeelUllageBounds_def ullage_bounds_of_empty
      query_ullages_empty[symmetric])

theorem empty_ullage_set_message_witness:
  "getUllageBounds [] 1 100 = OutOfRange [Txt ''No ullage data found for this compartment''] \<and>
   getHeelUllageBounds [] 1 100 =
     OutOfRange [Txt ''No heel ullage data found for this compartment''] \<and>
   getUllageBounds [\<lparr>compartment_id = 1, row_ullage = 100, row_cells = (\<lambda>c. None)\<rparr>] 1 150
     \<noteq> OutOfRange [Txt ''No ullage data found for this compartment''] \<and>
   getHeelUllageBounds [\<lparr>compartment_id = 1, row_ullage = 100, row_cells = (\<lambda>c. None)\<rparr>] 1 150
     \<noteq> OutOfRange [Txt ''No heel ullage data found for this compartment'']"
  using empty_ullage_set_message[of 1 "[]" 100 1
      "[\<lparr>compartment_id = 1, row_ullage = 100, row_cells = (\<lambda>c. None)\<rparr>]" 150]
  by simp

text \<open>
  C7 as stated fails: the finder reports the empty ullage set through the same
  \<open>outOfRange\<close> flag as a target below the minimum or above the maximum.
\<close>

theorem empty_ullage_set_counterexample:
  "outOfRange (getUllageBounds [] 1 100) \<and> outOfRange (getHeelUllageBounds [] 1 100)"
  by (simp add: getUllageBounds_def getHeelUllageBounds_def query_ullages_def ullage_bounds_of_def)

subsection \<open>The row queries\<close>

lemma set_query_in:
  "set (query_in tbl cid a b) =
     {r \<in> set tbl. compartment_id r = cid \<and> (row_ullage r = a \<or> row_ullage r = b)}"
  by (auto simp: query_in_def)

lemma sorted_query_in: "sorted (map row_ullage (query_in tbl cid a b))"
  by (simp add: query_in_def)

lemma query_in_pair:
  assumes q: "query_in tbl cid lo hi = [lr, ur]" and lt: "lo < hi"
    and lo: "lo \<in> set (query_ullages tbl cid)" and hi: "hi \<in> set (query_ullages tbl cid)"
  shows "row_ullage lr = lo \<and> row_ullage ur = hi \<and> compartment_id lr = cid \<and>
         compartment_id ur = cid \<and> lr \<in> set tbl \<and> ur \<in> set tbl"
proof -
  have s: "{lr, ur} = {r \<in> set tbl. compartment_id r = cid \<and> (row_ullage r = lo \<or> row_ullage r = hi)}"
    using set_query_in[of tbl cid lo hi] q by simp
  have le: "row_ullage lr \<le> row_ullage ur"
    using sorted_query_in[of tbl cid lo hi] q by simp
  from lo obtain r1 where r1: "r1 \<in> set tbl" "compartment_id r1 = cid" "row_ullage r1 = lo"
    by (auto simp: set_query_ullages)
  from hi obtain r2 where r2: "r2 \<in> set tbl" "compartment_id r2 = cid" "row_ullage r2 = hi"
    by (auto simp: set_query_ullages)
  from r1 s have m1: "r1 = lr \<or> r1 = ur" by blast
  from r2 s have m2: "r2 = lr \<or> r2 = ur" by blast
  from s have p: "lr \<in> set tbl" "ur \<in> set tbl" "compartment_id lr = cid" "compartment_id ur = cid"
    by blast+
  from m1 m2 r1(3) r2(3) le lt have "row_ullage lr = lo \<and> row_ullage ur = hi" by auto
  with p show ?thesis by simp
qed

lemma query_in_two_rows:
  assumes d: "distinct (map row_ullage (filter (\<lambda>r. compartment_id r = cid) tbl))"
    and lt: "lo < hi"
    and lo: "lo \<in> set (query_ullages tbl cid)" and hi: "hi \<in> set (query_ullages tbl cid)"
  shows "\<exists>lr ur. query_in tbl cid lo hi = [lr, ur]"
proof -
  let ?ys = "filter (\<lambda>r. compartment_id r = cid \<and> (row_ullage r = lo \<or> row_ullage r = hi)) tbl"
  have ys: "?ys = filter (\<lambda>r. row_ullage r = lo \<or> row_ullage r = hi)
                    (filter (\<lambda>r. compartment_id r = cid) tbl)"
    by (simp add: conj_commute)
  have dm: "distinct (map row_ullage ?ys)"
    unfolding ys using d by (rule distinct_map_filter)
  have img: "row_ullage ` set ?ys = {lo, hi}"
    using lo hi by (auto simp: set_query_ullages)
  have "length ?ys = length (map row_ullage ?ys)" by simp
  also have "\<dots> = card (set (map row_ullage ?ys))"
    using dm by (simp only: distinct_card)
  also have "\<dots> = card {lo, hi}" using img by simp
  also have "\<dots> = 2" using lt by simp
  finally have "length (query_in tbl cid lo hi) = 2"
    by (simp add: query_in_def)
  then show ?thesis
    by (cases "query_in tbl cid lo hi" rule: list.exhaust)
       (auto simp: length_Suc_conv)
qed

lemma query_exact_row:
  assumes "u \<in> set (query_ullages tbl cid)"
  shows "\<exists>row. query_exact tbl cid u = [row] \<and> row \<in> set tbl \<and>
           compartment_id row = cid \<and> row_ullage row = u \<and>
           find (\<lambda>r. compartment_id r = cid \<and> row_ullage r = u) tbl = Some row"
proof -
  let ?P = "\<lambda>r. compartment_id r = cid \<and> row_ullage r = u"
  from assms obtain r where "r \<in> set tbl" "?P r" by (auto simp: set_query_ullages)
  then have "filter ?P tbl \<noteq> []" by (auto simp: filter_empty_conv)
  then obtain row rest where f: "filter ?P tbl = row # rest" by (cases "filter ?P tbl") auto
  then have "row \<in> set (filter ?P tbl)" by simp
  then have "row \<in> set tbl" "?P row" by auto
  moreover have "find ?P tbl = Some row" using f by (induction tbl) (auto split: if_splits)
  ultimately show ?thesis using f by (auto simp: query_exact_def)
qed

subsection \<open>Coercions and rounding\<close>

lemma or_zero_simps [simp]: "or_zero None = 0" "or_zero (Some v) = v"
  by (simp_all add: or_zero_def)

lemma or_null_simps [simp]:
  "or_null None = None" "or_null (Some v) = (if v = 0 then None else Some v)"
  by (simp_all add: or_null_def)


lemma Math_round_closest:
  "\<bar>real_of_int (Math_round x) - x\<bar> \<le> \<bar>real_of_int k - x\<bar>"
proof -
  define n where "n = Math_round x"
  have b: "real_of_int n \<le> x + 1 / 2" "x + 1 / 2 < real_of_int n + 1"
    unfolding n_def Math_round_def by linarith+
  consider "k = n" | "k \<le> n - 1" | "n + 1 \<le> k" by linarith
  then show ?thesis
  proof cases
    case 1
    then show ?thesis by (simp add: n_def)
  next
    case 2
    then have "real_of_int k \<le> real_of_int n - 1" by linarith
    with b show ?thesis unfolding n_def[symmetric] by linarith
  next
    case 3
    then have "real_of_int n + 1 \<le> real_of_int k" by linarith
    with b show ?thesis unfolding n_def[symmetric] by linarith
  qed
qed

subsection \<open>What the ullage bracket finder returns\<close>

lemma getUllageBounds_BracketD:
  "getUllageBounds tbl cid u = Bracket lo hi \<Longrightarrow>
     lo \<in> set (query_ullages tbl cid) \<and> hi \<in> set (query_ullages tbl cid) \<and> lo < u \<and> u < hi"
  unfolding getUllageBounds_def by (rule ullage_bounds_of_BracketD)

lemma getHeelUllageBounds_BracketD:
  "getHeelUllageBounds tbl cid u = Bracket lo hi \<Longrightarrow>
     lo \<in> set (query_ullages tbl cid) \<and> hi \<in> set (query_ullages tbl cid) \<and> lo < u \<and> u < hi"
  unfolding getHeelUllageBounds_def by (rule ullage_bounds_of_BracketD)

lemma getUllageBounds_ExactD:
  "getUllageBounds tbl cid u = Exact e \<Longrightarrow> e = u \<and> u \<in> set (query_ullages tbl cid)"
  unfolding getUllageBounds_def by (rule ullage_bounds_of_ExactD)

lemma getUllageBounds_exact:
  "u \<in> set (query_ullages tbl cid) \<Longrightarrow> getUllageBounds tbl cid u = Exact u"
  unfolding getUllageBounds_def by (rule ullage_bounds_of_exact)

subsection \<open>Evaluating double arithmetic\<close>

declare expo.simps [simp del]

lemmas double_eval = double_def pow2_def round_half_even_def Let_def expo.simps

lemma double_small_numbers:
  "double 0 = 0" "double 50 = 50" "double 70 = 70" "double 54 = 54" "double 78 = 78"
  "double 10 = 10" "double 12 = 12" "double 1 = 1" "double 3 = 3" "double 2 = 2"
  "double 4 = 4" "double 30 = 30"
  by (simp_all add: double_eval)


text \<open>
  The same at the tie 0.5: the interpolation between 0 at 0 and 49 at 49, taken at 0.5,
  is 0.49999999999999994 in doubles and rounds to 0.
\<close>

lemma double_tie_at_half:
  "linearInterpolate double 0 0 49 49 (1 / 2) = 9007199254740991 / 18014398509481984"
  "linearInterpolate (\<lambda>x. x) 0 0 49 49 (1 / 2) = 1 / 2"
  "round_or_null (linearInterpolate double 0 0 49 49 (1 / 2)) = None"
  "round_or_null (linearInterpolate (\<lambda>x. x) 0 0 49 49 (1 / 2)) = Some 1"
  by (simp_all add: linearInterpolate_def double_eval Math_round_def round_or_null_def)

subsection \<open>The result on each path\<close>

lemma sounding_exact_result:
  assumes "getTrimBounds t = Exact col" and "getUllageBounds tbl cid u = Exact e"
    and "query_exact tbl cid e = row # rest"
  shows "getSoundingDataWithInterpolation fl tbl cid u t =
     Inr \<lparr>interpolation_used = ''none'', interpolation_bounds = None,
          volume = or_zero (row_cells row col),
          sound = or_null (row_cells row ''sound''),
          ullage = row_ullage row,
          lcg = or_zero (row_cells row ''lcg''), tcg = or_zero (row_cells row ''tcg''),
          vcg = or_zero (row_cells row ''vcg''), iy = or_zero (row_cells row ''iy'')\<rparr>"
  by (simp add: getSoundingDataWithInterpolation_def getSoundingWithUllageInterpolation_def assms)

lemma sounding_ullage_only_result:
  assumes "getTrimBounds t = Exact col" and "getUllageBounds tbl cid u = Bracket lo hi"
    and "query_in tbl cid lo hi = [lr, ur]"
  shows "getSoundingDataWithInterpolation fl tbl cid u t =
     Inr \<lparr>interpolation_used = ''ullage_only'',
          interpolation_bounds = Some \<lparr>b_ullage = \<lparr>lower = lo, upper = hi\<rparr>,
                                       b_trim = None, b_heel = None\<rparr>,
          volume = linearInterpolate fl lo (or_zero (row_cells lr col))
                     hi (or_zero (row_cells ur col)) u,
          sound = round_or_null (linearInterpolate fl lo (or_zero (row_cells lr ''sound''))
                     hi (or_zero (row_cells ur ''sound'')) u),
          ullage = u,
          lcg = linearInterpolate fl lo (or_zero (row_cells lr ''lcg''))
                  hi (or_zero (row_cells ur ''lcg'')) u,
          tcg = linearInterpolate fl lo (or_zero (row_cells lr ''tcg''))
                  hi (or_zero (row_cells ur ''tcg'')) u,
          vcg = linearInterpolate fl lo (or_zero (row_cells lr ''vcg''))
                  hi (or_zero (row_cells ur ''vcg'')) u,
          iy = linearInterpolate fl lo (or_zero (row_cells lr ''iy''))
                 hi (or_zero (row_cells ur ''iy'')) u\<rparr>"
  by (simp add: getSoundingDataWithInterpolation_def getSoundingWithUllageInterpolation_def assms)

lemma sounding_trim_only_result:
  assumes "getTrimBounds t = Bracket lt ut" and "getUllageBounds tbl cid u = Exact e"
    and "query_exact tbl cid e = row # rest"
  shows "getSoundingDataWithInterpolation fl tbl cid u t =
     Inr \<lparr>interpolation_used = ''trim_only'', interpolation_bounds = None,
          volume = linearInterpolate fl (val lt) (or_zero (row_cells row (column lt)))
                     (val ut) (or_zero (row_cells row (column ut))) t,
          sound = or_null (row_cells row ''sound''),
          ullage = u,
          lcg = or_zero (row_cells row ''lcg''), tcg = or_zero (row_cells row ''tcg''),
          vcg = or_zero (row_cells row ''vcg''), iy = or_zero (row_cells row ''iy'')\<rparr>"
  by (simp add: getSoundingDataWithInterpolation_def assms)

lemma sounding_bilinear_result:
  assumes "getTrimBounds t = Bracket lt ut" and "getUllageBounds tbl cid u = Bracket lo hi"
    and "query_in tbl cid lo hi = [lr, ur]"
  shows "getSoundingDataWithInterpolation fl tbl cid u t =
     Inr \<lparr>interpolation_used = ''bilinear'',
          interpolation_bounds = Some \<lparr>b_ullage = \<lparr>lower = lo, upper = hi\<rparr>,
                                       b_trim = Some \<lparr>lower = val lt, upper = val ut\<rparr>,
                                       b_heel = None\<rparr>,
          volume = linearInterpolate fl
                     lo (linearInterpolate fl (val lt) (or_zero (row_cells lr (column lt)))
                           (val ut) (or_zero (row_cells lr (column ut))) t)
                     hi (linearInterpolate fl (val lt) (or_zero (row_cells ur (column lt)))
                           (val ut) (or_zero (row_cells ur (column ut))) t)
                     u,
          sound = round_or_null (linearInterpolate fl lo (or_zero (row_cells lr ''sound''))
                     hi (or_zero (row_cells ur ''sound'')) u),
          ullage = u,
          lcg = linearInterpolate fl lo (or_zero (row_cells lr ''lcg''))
                  hi (or_zero (row_cells ur ''lcg'')) u,
          tcg = linearInterpolate fl lo (or_zero (row_cells lr ''tcg''))
                  hi (or_zero (row_cells ur ''tcg'')) u,
          vcg = linearInterpolate fl lo (or_zero (row_cells lr ''vcg''))
                  hi (or_zero (row_cells ur ''vcg'')) u,
          iy = linearInterpolate fl lo (or_zero (row_cells lr ''iy''))
                 hi (or_zero (row_cells ur ''iy'')) u\<rparr>"
  by (simp add: getSoundingDataWithInterpolation_def assms)

lemma heel_exact_result:
  assumes "getHeelBounds h = Exact col" and "getHeelUllageBounds tbl cid u = Exact e"
    and "query_exact tbl cid e = row # rest"
  shows "getHeelCorrectionWithInterpolation fl tbl cid u h =
     Inr \<lparr>interpolation_used = ''none'', interpolation_bounds = None,
          heel_correction = or_zero (row_cells row col)\<rparr>"
  by (simp add: getHeelCorrectionWithInterpolation_def
      getHeelCorrectionWithUllageInterpolation_def assms)

lemma heel_ullage_only_result:
  assumes "getHeelBounds h = Exact col" and "getHeelUllageBounds tbl cid u = Bracket lo hi"
    and "query_in tbl cid lo hi = [lr, ur]"
  shows "getHeelCorrectionWithInterpolation fl tbl cid u h =
     Inr \<lparr>interpolation_used = ''ullage_only'',
          interpolation_bounds = Some \<lparr>b_ullage = \<lparr>lower = lo, upper = hi\<rparr>,
                                       b_trim = None, b_heel = None\<rparr>,
          heel_correction = linearInterpolate fl lo (or_zero (row_cells lr col))
                              hi (or_zero (row_cells ur col)) u\<rparr>"
  by (simp add: getHeelCorrectionWithInterpolation_def
      getHeelCorrectionWithUllageInterpolation_def assms)

lemma heel_only_result:
  assumes "getHeelBounds h = Bracket lh uh" and "getHeelUllageBounds tbl cid u = Exact e"
    and "query_exact tbl cid e = row # rest"
  shows "getHeelCorrectionWithInterpolation fl tbl cid u h =
     Inr \<lparr>interpolation_used = ''heel_only'', interpolation_bounds = None,
          heel_correction =
            linearInterpolate fl (val lh) (or_zero (row_cells row (column lh)))
              (val uh) (or_zero (row_cells row (column uh))) h\<rparr>"
  by (simp add: getHeelCorrectionWithInterpolation_def assms)

lemma heel_bilinear_result:
  assumes "getHeelBounds h = Bracket lh uh" and "getHeelUllageBounds tbl cid u = Bracket lo hi"
    and "query_in tbl cid lo hi = [lr, ur]"
  shows "getHeelCorrectionWithInterpolation fl tbl cid u h =
     Inr \<lparr>interpolation_used = ''bilinear'',
          interpolation_bounds = Some \<lparr>b_ullage = \<lparr>lower = lo, upper = hi\<rparr>,
                                       b_trim = None,
                                       b_heel = Some \<lparr>lower = val lh, upper = val uh\<rparr>\<rparr>,
          heel_correction =
            linearInterpolate fl
              lo (linearInterpolate fl (val lh) (or_zero (row_cells lr (column lh)))
                    (val uh) (or_zero (row_cells lr (column uh))) h)
              hi (linearInterpolate fl (val lh) (or_zero (row_cells ur (column lh)))
                    (val uh) (or_zero (row_cells ur (column uh))) h)
              u\<rparr>"
  by (simp add: getHeelCorrectionWithInterpolation_def assms)

subsection \<open>The rows behind a bracket or an exact match\<close>

lemma getHeelUllageBounds_ExactD:
  "getHeelUllageBounds tbl cid u = Exact e \<Longrightarrow> e = u \<and> u \<in> set (query_ullages tbl cid)"
  unfolding getHeelUllageBounds_def by (rule ullage_bounds_of_ExactD)

lemma bracket_rows_of:
  assumes m: "lo \<in> set (query_ullages tbl cid)" "hi \<in> set (query_ullages tbl cid)"
    and lt: "lo < hi"
    and d: "distinct (map row_ullage (filter (\<lambda>r. compartment_id r = cid) tbl))"
  shows "\<exists>lr ur. query_in tbl cid lo hi = [lr, ur] \<and> lr \<in> set tbl \<and> ur \<in> set tbl \<and>
           compartment_id lr = cid \<and> compartment_id ur = cid \<and>
           row_ullage lr = lo \<and> row_ullage ur = hi"
proof -
  from query_in_two_rows[OF d lt m] obtain lr ur where q: "query_in tbl cid lo hi = [lr, ur]"
    by blast
  from query_in_pair[OF q lt m] q show ?thesis by blast
qed

lemma bracket_rows:
  assumes b: "getUllageBounds tbl cid u = Bracket lo hi"
    and d: "distinct (map row_ullage (filter (\<lambda>r. compartment_id r = cid) tbl))"
  shows "\<exists>lr ur. query_in tbl cid lo hi = [lr, ur] \<and> lr \<in> set tbl \<and> ur \<in> set tbl \<and>
           compartment_id lr = cid \<and> compartment_id ur = cid \<and>
           row_ullage lr = lo \<and> row_ullage ur = hi"
  using getUllageBounds_BracketD[OF b] d by (intro bracket_rows_of) auto

lemma heel_bracket_rows:
  assumes b: "getHeelUllageBounds tbl cid u = Bracket lo hi"
    and d: "distinct (map row_ullage (filter (\<lambda>r. compartment_id r = cid) tbl))"
  shows "\<exists>lr ur. query_in tbl cid lo hi = [lr, ur] \<and> lr \<in> set tbl \<and> ur \<in> set tbl \<and>
           compartment_id lr = cid \<and> compartment_id ur = cid \<and>
           row_ullage lr = lo \<and> row_ullage ur = hi"
  using getHeelUllageBounds_BracketD[OF b] d by (intro bracket_rows_of) auto

lemma exact_row_of:
  assumes "u \<in> set (query_ullages tbl cid)"
  shows "\<exists>row. query_exact tbl cid u = [row] \<and> row \<in> set tbl \<and>
           compartment_id row = cid \<and> row_ullage row = u"
  using query_exact_row[OF assms] by blast

lemma query_exact_unique:
  assumes d: "distinct (map row_ullage (filter (\<lambda>r. compartment_id r = cid) tbl))"
    and r: "r \<in> set tbl" "compartment_id r = cid"
  shows "query_exact tbl cid (row_ullage r) = [r]"
proof -
  have u: "row_ullage r \<in> set (query_ullages tbl cid)"
    using r by (auto simp: set_query_ullages)
  from query_exact_row[OF u] obtain row where
    q: "query_exact tbl cid (row_ullage r) = [row]" and
    row: "row \<in> set tbl" "compartment_id row = cid" "row_ullage row = row_ullage r"
    by blast
  have "inj_on row_ullage (set (filter (\<lambda>r. compartment_id r = cid) tbl))"
    using d by (simp add: distinct_map)
  with r row have "row = r" by (auto dest: inj_onD)
  with q show ?thesis by simp
qed

subsection \<open>Evaluating the example data\<close>

lemma example_keys [simp]:
  "compartment_id row_1_100 = 1" "row_ullage row_1_100 = 100"
  "compartment_id row_1_200 = 1" "row_ullage row_1_200 = 200"
  "compartment_id row_2_10 = 2" "row_ullage row_2_10 = 10"
  "compartment_id row_2_20 = 2" "row_ullage row_2_20 = 20"
  "compartment_id row_3_10 = 3" "row_ullage row_3_10 = 10"
  "compartment_id row_3_17 = 3" "row_ullage row_3_17 = 17"
  "compartment_id row_4_10 = 4" "row_ullage row_4_10 = 10"
  "compartment_id row_4_20 = 4" "row_ullage row_4_20 = 20"
  "compartment_id heel_row_4_10 = 4" "row_ullage heel_row_4_10 = 10"
  "compartment_id heel_row_4_20 = 4" "row_ullage heel_row_4_20 = 20"
  by (simp_all add: row_1_100_def row_1_200_def row_2_10_def row_2_20_def row_3_10_def
      row_3_17_def row_4_10_def row_4_20_def heel_row_4_10_def heel_row_4_20_def)

lemma example_ullages:
  "query_ullages example_tbl 1 = [100, 200]" "query_ullages example_tbl 2 = [10, 20]"
  "query_ullages tie_tbl 3 = [10, 17]" "query_ullages gap_tbl 4 = [10, 20]"
  "query_ullages gap_heel_tbl 4 = [10, 20]"
  by (simp_all add: query_ullages_def example_tbl_def tie_tbl_def gap_tbl_def gap_heel_tbl_def)

lemma example_bounds:
  "getUllageBounds example_tbl 1 150 = Bracket 100 200"
  "getUllageBounds example_tbl 1 100 = Exact 100"
  "getUllageBounds example_tbl 2 15 = Bracket 10 20"
  "getUllageBounds example_tbl 2 10 = Exact 10"
  "getUllageBounds tie_tbl 3 (29 / 2) = Bracket 10 17"
  "getUllageBounds gap_tbl 4 15 = Bracket 10 20"
  "getUllageBounds gap_tbl 4 10 = Exact 10"
  by (simp_all add: getUllageBounds_def ullage_bounds_of_def example_ullages)

lemma example_heel_bounds:
  "getHeelUllageBounds gap_heel_tbl 4 15 = Bracket 10 20"
  "getHeelUllageBounds gap_heel_tbl 4 10 = Exact 10"
  by (simp_all add: getHeelUllageBounds_def ullage_bounds_of_def example_ullages)

lemma example_trim:
  "getTrimBounds 0 = Exact ''trim_0_0''"
  "getTrimBounds (1 / 4) =
     Bracket \<lparr>val = 0, column = ''trim_0_0''\<rparr> \<lparr>val = 1 / 2, column = ''trim_plus_0_5''\<rparr>"
  by (simp_all add: getTrimBounds_def trimRanges_def)

lemma example_heel:
  "getHeelBounds 1 = Exact ''heel_plus_1_0''"
  "getHeelBounds (3 / 4) =
     Bracket \<lparr>val = 1 / 2, column = ''heel_plus_0_5''\<rparr> \<lparr>val = 1, column = ''heel_plus_1_0''\<rparr>"
  "getHeelBounds 5 =
     OutOfRange [Txt ''Heel '', Num 5, Txt '' is above maximum supported heel '', Num 3]"
  by (simp_all add: getHeelBounds_def heelRanges_def)

lemma example_rows:
  "query_in example_tbl 1 100 200 = [row_1_100, row_1_200]"
  "query_in example_tbl 2 10 20 = [row_2_10, row_2_20]"
  "query_exact example_tbl 1 100 = [row_1_100]"
  "query_exact example_tbl 2 10 = [row_2_10]"
  "query_in tie_tbl 3 10 17 = [row_3_10, row_3_17]"
  "query_in gap_tbl 4 10 20 = [row_4_10, row_4_20]"
  "query_exact gap_tbl 4 10 = [row_4_10]"
  "query_in gap_heel_tbl 4 10 20 = [heel_row_4_10, heel_row_4_20]"
  "query_exact gap_heel_tbl 4 10 = [heel_row_4_10]"
  by (simp_all add: query_in_def query_exact_def example_tbl_def tie_tbl_def gap_tbl_def
      gap_heel_tbl_def)

lemma example_distinct:
  "distinct (map row_ullage (filter (\<lambda>r. compartment_id r = 1) example_tbl))"
  "distinct (map row_ullage (filter (\<lambda>r. compartment_id r = 2) example_tbl))"
  "distinct (map row_ullage (filter (\<lambda>r. compartment_id r = 3) tie_tbl))"
  "distinct (map row_ullage (filter (\<lambda>r. compartment_id r = 4) gap_tbl))"
  "distinct (map row_ullage (filter (\<lambda>r. compartment_id r = 4) gap_heel_tbl))"
  by (simp_all add: example_tbl_def tie_tbl_def gap_tbl_def gap_heel_tbl_def)

lemma example_cells:
  "row_cells row_1_100 ''trim_0_0'' = Some 50"
  "row_cells row_1_100 ''trim_plus_0_5'' = Some 54"
  "row_cells row_1_100 ''sound'' = Some 0"
  "row_cells row_1_100 ''lcg'' = Some 10"
  "row_cells row_1_100 ''tcg'' = Some 1"
  "row_cells row_1_100 ''vcg'' = Some 2"
  "row_cells row_1_100 ''iy'' = Some 30"
  "row_cells row_1_200 ''trim_0_0'' = Some 70"
  "row_cells row_1_200 ''trim_plus_0_5'' = Some 78"
  "row_cells row_1_200 ''sound'' = Some 0"
  "row_cells row_1_200 ''lcg'' = Some 12"
  "row_cells row_1_200 ''tcg'' = Some 3"
  "row_cells row_1_200 ''vcg'' = Some 4"
  "row_cells row_1_200 ''iy'' = Some 50"
  "row_cells row_2_10 ''trim_0_0'' = Some 5"
  "row_cells row_2_10 ''sound'' = Some 3"
  "row_cells row_2_10 ''lcg'' = None"
  "row_cells row_2_10 ''tcg'' = None"
  "row_cells row_2_10 ''vcg'' = None"
  "row_cells row_2_10 ''iy'' = None"
  "row_cells row_2_20 ''trim_0_0'' = Some 7"
  "row_cells row_2_20 ''sound'' = Some 4"
  "row_cells row_2_20 ''lcg'' = None"
  "row_cells row_2_20 ''tcg'' = None"
  "row_cells row_2_20 ''vcg'' = None"
  "row_cells row_2_20 ''iy'' = None"
  by (simp_all add: row_1_100_def row_1_200_def row_2_10_def row_2_20_def)


lemma gap_cells:
  "row_cells row_4_10 ''trim_0_0'' = None"
  "row_cells row_4_10 ''trim_plus_0_5'' = Some 6"
  "row_cells row_4_10 ''sound'' = None"
  "row_cells row_4_10 ''lcg'' = None"
  "row_cells row_4_10 ''tcg'' = Some 1"
  "row_cells row_4_10 ''vcg'' = Some 2"
  "row_cells row_4_10 ''iy'' = Some 3"
  "row_cells row_4_20 ''trim_0_0'' = Some 8"
  "row_cells row_4_20 ''trim_plus_0_5'' = None"
  "row_cells row_4_20 ''sound'' = Some 5"
  "row_cells row_4_20 ''lcg'' = Some 4"
  "row_cells row_4_20 ''tcg'' = Some 3"
  "row_cells row_4_20 ''vcg'' = Some 6"
  "row_cells row_4_20 ''iy'' = Some 7"
  "row_cells heel_row_4_10 ''heel_plus_0_5'' = Some 1"
  "row_cells heel_row_4_10 ''heel_plus_1_0'' = None"
  "row_cells heel_row_4_20 ''heel_plus_0_5'' = None"
  "row_cells heel_row_4_20 ''heel_plus_1_0'' = Some 2"
  by (simp_all add: row_4_10_def row_4_20_def heel_row_4_10_def heel_row_4_20_def)

lemmas eval_arith = linearInterpolate_def double_eval round_or_null_def Math_round_def

lemma example_sounding_exact:
  "getSoundingDataWithInterpolation double example_tbl 1 100 0 =
     Inr \<lparr>interpolation_used = ''none'', interpolation_bounds = None,
          volume = 50, sound = None, ullage = 100, lcg = 10, tcg = 1, vcg = 2, iy = 30\<rparr>"
  by (simp add: sounding_exact_result[OF example_trim(1) example_bounds(2) example_rows(3)]
      example_cells)

lemma example_sounding_ullage_only:
  "getSoundingDataWithInterpolation double example_tbl 1 150 0 =
     Inr \<lparr>interpolation_used = ''ullage_only'',
          interpolation_bounds = Some \<lparr>b_ullage = \<lparr>lower = 100, upper = 200\<rparr>,
                                       b_trim = None, b_heel = None\<rparr>,
          volume = 60, sound = None, ullage = 150, lcg = 11, tcg = 2, vcg = 3, iy = 40\<rparr>"
  by (simp add: sounding_ullage_only_result[OF example_trim(1) example_bounds(1) example_rows(1)]
      example_cells eval_arith)

lemma example_sounding_bilinear:
  "getSoundingDataWithInterpolation double example_tbl 1 150 (1 / 4) =
     Inr \<lparr>interpolation_used = ''bilinear'',
          interpolation_bounds = Some \<lparr>b_ullage = \<lparr>lower = 100, upper = 200\<rparr>,
                                       b_trim = Some \<lparr>lower = 0, upper = 1 / 2\<rparr>,
                                       b_heel = None\<rparr>,
          volume = 63, sound = None, ullage = 150, lcg = 11, tcg = 2, vcg = 3, iy = 40\<rparr>"
  by (simp add: sounding_bilinear_result[OF example_trim(2) example_bounds(1) example_rows(1)]
      example_cells eval_arith)

lemma example_sounding_2:
  "getSoundingDataWithInterpolation double example_tbl 2 15 0 =
     Inr \<lparr>interpolation_used = ''ullage_only'',
          interpolation_bounds = Some \<lparr>b_ullage = \<lparr>lower = 10, upper = 20\<rparr>,
                                       b_trim = None, b_heel = None\<rparr>,
          volume = 6, sound = Some 4, ullage = 15, lcg = 0, tcg = 0, vcg = 0, iy = 0\<rparr>"
  by (simp add: sounding_ullage_only_result[OF example_trim(1) example_bounds(3) example_rows(2)]
      example_cells eval_arith)


lemma gap_sounding_ullage_only:
  "getSoundingDataWithInterpolation double gap_tbl 4 15 0 =
     Inr \<lparr>interpolation_used = ''ullage_only'',
          interpolation_bounds = Some \<lparr>b_ullage = \<lparr>lower = 10, upper = 20\<rparr>,
                                       b_trim = None, b_heel = None\<rparr>,
          volume = 4, sound = Some 3, ullage = 15, lcg = 2, tcg = 2, vcg = 4, iy = 5\<rparr>"
  by (simp add: sounding_ullage_only_result[OF example_trim(1) example_bounds(6) example_rows(6)]
      gap_cells eval_arith)

lemma gap_sounding_trim_only:
  "getSoundingDataWithInterpolation double gap_tbl 4 10 (1 / 4) =
     Inr \<lparr>interpolation_used = ''trim_only'', interpolation_bounds = None,
          volume = 3, sound = None, ullage = 10, lcg = 0, tcg = 1, vcg = 2, iy = 3\<rparr>"
  by (simp add: sounding_trim_only_result[OF example_trim(2) example_bounds(7) example_rows(7)]
      gap_cells eval_arith)

lemma gap_sounding_bilinear:
  "getSoundingDataWithInterpolation double gap_tbl 4 15 (1 / 4) =
     Inr \<lparr>interpolation_used = ''bilinear'',
          interpolation_bounds = Some \<lparr>b_ullage = \<lparr>lower = 10, upper = 20\<rparr>,
                                       b_trim = Some \<lparr>lower = 0, upper = 1 / 2\<rparr>,
                                       b_heel = None\<rparr>,
          volume = 7 / 2, sound = Some 3, ullage = 15, lcg = 2, tcg = 2, vcg = 4, iy = 5\<rparr>"
  by (simp add: sounding_bilinear_result[OF example_trim(2) example_bounds(6) example_rows(6)]
      gap_cells eval_arith)

lemma gap_heel_ullage_only:
  "getHeelCorrectionWithInterpolation double gap_heel_tbl 4 15 1 =
     Inr \<lparr>interpolation_used = ''ullage_only'',
          interpolation_bounds = Some \<lparr>b_ullage = \<lparr>lower = 10, upper = 20\<rparr>,
                                       b_trim = None, b_heel = None\<rparr>,
          heel_correction = 1\<rparr>"
  by (simp add: heel_ullage_only_result[OF example_heel(1) example_heel_bounds(1) example_rows(8)]
      gap_cells eval_arith)

lemma gap_heel_only:
  "getHeelCorrectionWithInterpolation double gap_heel_tbl 4 10 (3 / 4) =
     Inr \<lparr>interpolation_used = ''heel_only'', interpolation_bounds = None,
          heel_correction = 1 / 2\<rparr>"
  by (simp add: heel_only_result[OF example_heel(2) example_heel_bounds(2) example_rows(9)]
      gap_cells eval_arith)

lemma gap_heel_bilinear:
  "getHeelCorrectionWithInterpolation double gap_heel_tbl 4 15 (3 / 4) =
     Inr \<lparr>interpolation_used = ''bilinear'',
          interpolation_bounds = Some \<lparr>b_ullage = \<lparr>lower = 10, upper = 20\<rparr>,
                                       b_trim = None,
                                       b_heel = Some \<lparr>lower = 1 / 2, upper = 1\<rparr>\<rparr>,
          heel_correction = 3 / 4\<rparr>"
  by (simp add: heel_bilinear_result[OF example_heel(2) example_heel_bounds(1) example_rows(8)]
      gap_cells eval_arith)

lemma example_heel_out_of_range:
  "getHeelCorrectionWithInterpolation double example_heel_tbl 1 150 5 =
     Inl [Txt ''Heel '', Num 5, Txt '' is above maximum supported heel '', Num 3]"
  by (simp add: getHeelCorrectionWithInterpolation_def example_heel(3))

subsection \<open>Sounding evaluator: the sound on a bracketed ullage\<close>




subsection \<open>The bilinear path\<close>

lemma linearInterpolate_const:
  "fl 0 = 0 \<Longrightarrow> fl p = p \<Longrightarrow> linearInterpolate fl a p b p x = p"
  by (simp add: linearInterpolate_def)

lemma example_cells_are_doubles:
  "double (or_zero (row_cells row_1_100 prop)) = or_zero (row_cells row_1_100 prop)"
  "double (or_zero (row_cells row_1_200 prop)) = or_zero (row_cells row_1_200 prop)"
  by (simp_all add: row_1_100_def row_1_200_def double_small_numbers)

lemma example_rows_by_key:
  "r \<in> set example_tbl \<Longrightarrow> compartment_id r = 1 \<Longrightarrow> row_ullage r = 100 \<Longrightarrow> r = row_1_100"
  "r \<in> set example_tbl \<Longrightarrow> compartment_id r = 1 \<Longrightarrow> row_ullage r = 200 \<Longrightarrow> r = row_1_200"
  by (auto simp: example_tbl_def)

text \<open>
  C1 as amended. When the trim resolver and the ullage finder both return a bracket
  (and, as the data model requires, no two rows of the compartment share an ullage),
  the evaluator succeeds with mode \<open>bilinear\<close> and the trim and ullage bounds used. The
  volume is the two-stage interpolation of the four bracketing cells. \<open>lcg\<close>, \<open>tcg\<close>,
  \<open>vcg\<close> and \<open>iy\<close> are interpolated across the ullage bracket between the rows' values;
  a row has one value of each for every trim, so this is the same two-stage
  interpolation, given that the stored values are numbers of the arithmetic (rounding
  leaves them and 0 unchanged, as it does every double). The sound is that
  interpolation rounded to the nearest integer, and absent when the integer is zero.
  A cell that is not a number reads as 0. The arithmetic is the evaluator's, whatever
  its rounding \<open>fl\<close> is.
\<close>

theorem bilinear_two_stage:
  assumes "getTrimBounds t = Bracket lt ut"
    and "getUllageBounds tbl cid u = Bracket lo hi"
    and "distinct (map row_ullage (filter (\<lambda>r. compartment_id r = cid) tbl))"
  shows "\<exists>lr ur. lr \<in> set tbl \<and> ur \<in> set tbl \<and> compartment_id lr = cid \<and> compartment_id ur = cid \<and>
           row_ullage lr = lo \<and> row_ullage ur = hi \<and>
           (let attr = (\<lambda>prop. linearInterpolate fl lo (or_zero (row_cells lr prop))
                                  hi (or_zero (row_cells ur prop)) u)
            in getSoundingDataWithInterpolation fl tbl cid u t =
               Inr \<lparr>interpolation_used = ''bilinear'',
                    interpolation_bounds = Some
                      \<lparr>b_ullage = \<lparr>lower = lo, upper = hi\<rparr>,
                       b_trim = Some \<lparr>lower = val lt, upper = val ut\<rparr>,
                       b_heel = None\<rparr>,
                    volume = spec_two_stage fl lt ut t lo hi u
                      (or_zero (row_cells lr (column lt)), or_zero (row_cells lr (column ut)))
                      (or_zero (row_cells ur (column lt)), or_zero (row_cells ur (column ut))),
                    sound = (let n = Math_round (attr ''sound'')
                             in if n = 0 then None else Some (real_of_int n)),
                    ullage = u,
                    lcg = attr ''lcg'', tcg = attr ''tcg'', vcg = attr ''vcg'',
                    iy = attr ''iy''\<rparr> \<and>
               (fl 0 = 0 \<and>
                (\<forall>prop. fl (or_zero (row_cells lr prop)) = or_zero (row_cells lr prop)) \<and>
                (\<forall>prop. fl (or_zero (row_cells ur prop)) = or_zero (row_cells ur prop)) \<longrightarrow>
                (\<forall>prop. attr prop =
                   spec_two_stage fl lt ut t lo hi u
                     (or_zero (row_cells lr prop), or_zero (row_cells lr prop))
                     (or_zero (row_cells ur prop), or_zero (row_cells ur prop)))))"
proof -
  from bracket_rows[OF assms(2,3)] obtain lr ur where
    q: "query_in tbl cid lo hi = [lr, ur]" and
    r: "lr \<in> set tbl" "ur \<in> set tbl" "compartment_id lr = cid" "compartment_id ur = cid"
       "row_ullage lr = lo" "row_ullage ur = hi"
    by blast
  show ?thesis
    using r
    by (intro exI[of _ lr] exI[of _ ur])
       (simp add: sounding_bilinear_result[OF assms(1,2) q] spec_two_stage_def
          round_or_null_def Let_def linearInterpolate_const)
qed

theorem bilinear_two_stage_witness:
  "getTrimBounds (1 / 4) =
     Bracket \<lparr>val = 0, column = ''trim_0_0''\<rparr> \<lparr>val = 1 / 2, column = ''trim_plus_0_5''\<rparr> \<and>
   getUllageBounds example_tbl 1 150 = Bracket 100 200 \<and>
   distinct (map row_ullage (filter (\<lambda>r. compartment_id r = 1) example_tbl)) \<and>
   getSoundingDataWithInterpolation double example_tbl 1 150 (1 / 4) =
     Inr \<lparr>interpolation_used = ''bilinear'',
          interpolation_bounds = Some \<lparr>b_ullage = \<lparr>lower = 100, upper = 200\<rparr>,
                                       b_trim = Some \<lparr>lower = 0, upper = 1 / 2\<rparr>,
                                       b_heel = None\<rparr>,
          volume = 63, sound = None, ullage = 150, lcg = 11, tcg = 2, vcg = 3, iy = 40\<rparr> \<and>
   spec_two_stage double \<lparr>val = 0, column = ''trim_0_0''\<rparr> \<lparr>val = 1 / 2, column = ''trim_plus_0_5''\<rparr>
     (1 / 4) 100 200 150
     (or_zero (row_cells row_1_100 ''trim_0_0''), or_zero (row_cells row_1_100 ''trim_plus_0_5''))
     (or_zero (row_cells row_1_200 ''trim_0_0''), or_zero (row_cells row_1_200 ''trim_plus_0_5''))
     = 63 \<and>
   double 0 = 0 \<and>
   (\<forall>prop. double (or_zero (row_cells row_1_100 prop)) = or_zero (row_cells row_1_100 prop)) \<and>
   (\<forall>prop. double (or_zero (row_cells row_1_200 prop)) = or_zero (row_cells row_1_200 prop)) \<and>
   (\<forall>prop. linearInterpolate double 100 (or_zero (row_cells row_1_100 prop))
              200 (or_zero (row_cells row_1_200 prop)) 150 =
            spec_two_stage double \<lparr>val = 0, column = ''trim_0_0''\<rparr>
              \<lparr>val = 1 / 2, column = ''trim_plus_0_5''\<rparr> (1 / 4) 100 200 150
              (or_zero (row_cells row_1_100 prop), or_zero (row_cells row_1_100 prop))
              (or_zero (row_cells row_1_200 prop), or_zero (row_cells row_1_200 prop)))"
proof -
  from bilinear_two_stage[OF example_trim(2) example_bounds(1) example_distinct(1), of double]
  obtain lr ur where
    r: "lr \<in> set example_tbl" "ur \<in> set example_tbl" "compartment_id lr = 1"
       "compartment_id ur = 1" "row_ullage lr = 100" "row_ullage ur = 200" and
    v: "getSoundingDataWithInterpolation double example_tbl 1 150 (1 / 4) =
          Inr \<lparr>interpolation_used = ''bilinear'',
               interpolation_bounds = Some
                 \<lparr>b_ullage = \<lparr>lower = 100, upper = 200\<rparr>,
                  b_trim = Some \<lparr>lower = val \<lparr>val = 0, column = ''trim_0_0''\<rparr>,
                                  upper = val \<lparr>val = 1 / 2, column = ''trim_plus_0_5''\<rparr>\<rparr>,
                  b_heel = None\<rparr>,
               volume = spec_two_stage double \<lparr>val = 0, column = ''trim_0_0''\<rparr>
                 \<lparr>val = 1 / 2, column = ''trim_plus_0_5''\<rparr> (1 / 4) 100 200 150
                 (or_zero (row_cells lr (column \<lparr>val = 0, column = ''trim_0_0''\<rparr>)),
                  or_zero (row_cells lr (column \<lparr>val = 1 / 2, column = ''trim_plus_0_5''\<rparr>)))
                 (or_zero (row_cells ur (column \<lparr>val = 0, column = ''trim_0_0''\<rparr>)),
                  or_zero (row_cells ur (column \<lparr>val = 1 / 2, column = ''trim_plus_0_5''\<rparr>))),
               sound = (let n = Math_round (linearInterpolate double 100
                                   (or_zero (row_cells lr ''sound''))
                                   200 (or_zero (row_cells ur ''sound'')) 150)
                        in if n = 0 then None else Some (real_of_int n)),
               ullage = 150,
               lcg = linearInterpolate double 100 (or_zero (row_cells lr ''lcg''))
                       200 (or_zero (row_cells ur ''lcg'')) 150,
               tcg = linearInterpolate double 100 (or_zero (row_cells lr ''tcg''))
                       200 (or_zero (row_cells ur ''tcg'')) 150,
               vcg = linearInterpolate double 100 (or_zero (row_cells lr ''vcg''))
                       200 (or_zero (row_cells ur ''vcg'')) 150,
               iy = linearInterpolate double 100 (or_zero (row_cells lr ''iy''))
                      200 (or_zero (row_cells ur ''iy'')) 150\<rparr>" and
    e: "double 0 = 0 \<and>
        (\<forall>prop. double (or_zero (row_cells lr prop)) = or_zero (row_cells lr prop)) \<and>
        (\<forall>prop. double (or_zero (row_cells ur prop)) = or_zero (row_cells ur prop)) \<longrightarrow>
        (\<forall>prop. linearInterpolate double 100 (or_zero (row_cells lr prop))
                   200 (or_zero (row_cells ur prop)) 150 =
           spec_two_stage double \<lparr>val = 0, column = ''trim_0_0''\<rparr>
             \<lparr>val = 1 / 2, column = ''trim_plus_0_5''\<rparr> (1 / 4) 100 200 150
             (or_zero (row_cells lr prop), or_zero (row_cells lr prop))
             (or_zero (row_cells ur prop), or_zero (row_cells ur prop)))"
    unfolding Let_def by blast
  have lr: "lr = row_1_100" using r by (intro example_rows_by_key(1))
  have ur: "ur = row_1_200" using r by (intro example_rows_by_key(2))
  have d: "double 0 = 0" by (rule double_small_numbers(1))
  from v have vol: "spec_two_stage double \<lparr>val = 0, column = ''trim_0_0''\<rparr>
       \<lparr>val = 1 / 2, column = ''trim_plus_0_5''\<rparr> (1 / 4) 100 200 150
       (or_zero (row_cells row_1_100 ''trim_0_0''), or_zero (row_cells row_1_100 ''trim_plus_0_5''))
       (or_zero (row_cells row_1_200 ''trim_0_0''), or_zero (row_cells row_1_200 ''trim_plus_0_5''))
       = 63"
    unfolding lr ur example_sounding_bilinear by simp
  from e[unfolded lr ur] d example_cells_are_doubles
  have two: "\<forall>prop. linearInterpolate double 100 (or_zero (row_cells row_1_100 prop))
              200 (or_zero (row_cells row_1_200 prop)) 150 =
            spec_two_stage double \<lparr>val = 0, column = ''trim_0_0''\<rparr>
              \<lparr>val = 1 / 2, column = ''trim_plus_0_5''\<rparr> (1 / 4) 100 200 150
              (or_zero (row_cells row_1_100 prop), or_zero (row_cells row_1_100 prop))
              (or_zero (row_cells row_1_200 prop), or_zero (row_cells row_1_200 prop))"
    by blast
  show ?thesis
    using example_trim(2) example_bounds(1) example_distinct(1) example_sounding_bilinear
      vol d example_cells_are_doubles two
    by (intro conjI allI) simp_all
qed

text \<open>
  C1 as stated fails where the interpolated sound rounds to zero: the rounded value is
  the integer 0, and the evaluator returns no sound.
\<close>

theorem bilinear_sound_counterexample:
  "getTrimBounds (1 / 4) =
     Bracket \<lparr>val = 0, column = ''trim_0_0''\<rparr> \<lparr>val = 1 / 2, column = ''trim_plus_0_5''\<rparr> \<and>
   getUllageBounds example_tbl 1 150 = Bracket 100 200 \<and>
   query_in example_tbl 1 100 200 = [row_1_100, row_1_200] \<and>
   Math_round
     (spec_two_stage double \<lparr>val = 0, column = ''trim_0_0''\<rparr>
        \<lparr>val = 1 / 2, column = ''trim_plus_0_5''\<rparr> (1 / 4) 100 200 150
        (or_zero (row_cells row_1_100 ''sound''), or_zero (row_cells row_1_100 ''sound''))
        (or_zero (row_cells row_1_200 ''sound''), or_zero (row_cells row_1_200 ''sound''))) = 0 \<and>
   getSoundingDataWithInterpolation double example_tbl 1 150 (1 / 4) =
     Inr \<lparr>interpolation_used = ''bilinear'',
          interpolation_bounds = Some \<lparr>b_ullage = \<lparr>lower = 100, upper = 200\<rparr>,
                                       b_trim = Some \<lparr>lower = 0, upper = 1 / 2\<rparr>,
                                       b_heel = None\<rparr>,
          volume = 63, sound = None, ullage = 150, lcg = 11, tcg = 2, vcg = 3, iy = 40\<rparr>"
  by (simp add: example_trim(2) example_bounds(1) example_rows(1) example_sounding_bilinear
      example_cells spec_two_stage_def eval_arith)

subsection \<open>The exact path\<close>

lemma or_zero_case: "or_zero c = (case c of None \<Rightarrow> 0 | Some v \<Rightarrow> v)"
  by (cases c) simp_all

lemma or_null_case:
  "or_null c = (case c of None \<Rightarrow> None | Some s \<Rightarrow> if s = 0 then None else Some s)"
  by (cases c) simp_all

text \<open>
  C2 as amended. When the trim equals an axis level and the ullage is that of a stored
  row (and no two rows of the compartment share an ullage), the evaluator returns the
  row's own values with mode \<open>none\<close> and no interpolation, whatever the arithmetic: a
  stored number is returned as it is, a cell that is not a number reads as 0, and the
  stored sound is returned as it is unless it is zero or not a number, in which case
  the sound is absent.
\<close>

theorem exact_lookup:
  assumes "p \<in> set trimRanges"
    and "r \<in> set tbl" and "compartment_id r = cid"
    and "distinct (map row_ullage (filter (\<lambda>r. compartment_id r = cid) tbl))"
  shows "getSoundingDataWithInterpolation fl tbl cid (row_ullage r) (val p) =
     Inr \<lparr>interpolation_used = ''none'', interpolation_bounds = None,
          volume = (case row_cells r (column p) of None \<Rightarrow> 0 | Some v \<Rightarrow> v),
          sound = (case row_cells r ''sound'' of None \<Rightarrow> None
                   | Some s \<Rightarrow> if s = 0 then None else Some s),
          ullage = row_ullage r,
          lcg = (case row_cells r ''lcg'' of None \<Rightarrow> 0 | Some v \<Rightarrow> v),
          tcg = (case row_cells r ''tcg'' of None \<Rightarrow> 0 | Some v \<Rightarrow> v),
          vcg = (case row_cells r ''vcg'' of None \<Rightarrow> 0 | Some v \<Rightarrow> v),
          iy = (case row_cells r ''iy'' of None \<Rightarrow> 0 | Some v \<Rightarrow> v)\<rparr>"
proof -
  have t: "getTrimBounds (val p) = Exact (column p)"
    using assms(1) by (rule getTrimBounds_exact)
  have "row_ullage r \<in> set (query_ullages tbl cid)"
    using assms(2,3) by (auto simp: set_query_ullages)
  then have u: "getUllageBounds tbl cid (row_ullage r) = Exact (row_ullage r)"
    by (rule getUllageBounds_exact)
  have q: "query_exact tbl cid (row_ullage r) = [r]"
    using assms(4,2,3) by (rule query_exact_unique)
  show ?thesis
    by (simp add: sounding_exact_result[OF t u q] or_zero_case or_null_case)
qed

theorem exact_lookup_witness:
  "\<lparr>val = 0, column = ''trim_0_0''\<rparr> \<in> set trimRanges \<and> row_2_10 \<in> set example_tbl \<and>
   compartment_id row_2_10 = 2 \<and>
   distinct (map row_ullage (filter (\<lambda>r. compartment_id r = 2) example_tbl)) \<and>
   getSoundingDataWithInterpolation double example_tbl 2 10 0 =
     Inr \<lparr>interpolation_used = ''none'', interpolation_bounds = None,
          volume = 5, sound = Some 3, ullage = 10, lcg = 0, tcg = 0, vcg = 0, iy = 0\<rparr>"
proof -
  have h: "\<lparr>val = 0, column = ''trim_0_0''\<rparr> \<in> set trimRanges" "row_2_10 \<in> set example_tbl"
    "compartment_id row_2_10 = 2"
    by (simp_all add: trimRanges_def example_tbl_def)
  from exact_lookup[OF h example_distinct(2), of double] h example_distinct(2)
  show ?thesis by (simp add: example_cells)
qed

text \<open>
  C2 as stated fails for a stored sound of zero: the row at ullage 100 stores the sound
  0, and the exact lookup returns no sound.
\<close>

theorem exact_lookup_sound_counterexample:
  "getTrimBounds 0 = Exact ''trim_0_0'' \<and>
   getUllageBounds example_tbl 1 100 = Exact 100 \<and>
   query_exact example_tbl 1 100 = [row_1_100] \<and>
   row_cells row_1_100 ''sound'' = Some 0 \<and>
   getSoundingDataWithInterpolation double example_tbl 1 100 0 =
     Inr \<lparr>interpolation_used = ''none'', interpolation_bounds = None,
          volume = 50, sound = None, ullage = 100, lcg = 10, tcg = 1, vcg = 2, iy = 30\<rparr>"
  by (simp add: example_trim(1) example_bounds(2) example_rows(3) example_cells(3)
      example_sounding_exact)

subsection \<open>Composite query resolver\<close>

lemma getHeelBounds_message:
  "getHeelBounds h = OutOfRange m \<Longrightarrow> \<not> message_falsy m"
  by (auto simp: getHeelBounds_def message_falsy_def split: option.splits if_splits)

lemma getHeelUllageBounds_message:
  "getHeelUllageBounds tbl cid u = OutOfRange m \<Longrightarrow> \<not> message_falsy m"
  by (auto simp: getHeelUllageBounds_def ullage_bounds_of_def message_falsy_def
      split: list.splits option.splits if_splits)

lemma heel_ullage_error_message:
  assumes "getHeelCorrectionWithUllageInterpolation fl tbl cid u col h = Inl e"
  shows "\<not> message_falsy e"
proof (cases "getHeelUllageBounds tbl cid u")
  case (Exact x)
  with assms show ?thesis
    by (auto simp: getHeelCorrectionWithUllageInterpolation_def message_falsy_def
        split: list.splits)
next
  case (OutOfRange m)
  with assms getHeelUllageBounds_message[OF OutOfRange] show ?thesis
    by (simp add: getHeelCorrectionWithUllageInterpolation_def)
next
  case (Bracket lo hi)
  with assms show ?thesis
    by (auto simp: getHeelCorrectionWithUllageInterpolation_def message_falsy_def
        split: list.splits)
qed

lemma heel_error_message:
  assumes "getHeelCorrectionWithInterpolation fl tbl cid u h = Inl e"
  shows "\<not> message_falsy e"
proof (cases "getHeelBounds h")
  case (Exact col)
  with assms show ?thesis
    by (simp add: getHeelCorrectionWithInterpolation_def heel_ullage_error_message)
next
  case (OutOfRange m)
  with assms getHeelBounds_message[OF OutOfRange] show ?thesis
    by (simp add: getHeelCorrectionWithInterpolation_def)
next
  case b: (Bracket lh uh)
  show ?thesis
  proof (cases "getHeelUllageBounds tbl cid u")
    case (Exact x)
    with assms b show ?thesis
      by (auto simp: getHeelCorrectionWithInterpolation_def message_falsy_def
          split: list.splits)
  next
    case (OutOfRange m)
    with assms b getHeelUllageBounds_message[OF OutOfRange] show ?thesis
      by (simp add: getHeelCorrectionWithInterpolation_def)
  next
    case (Bracket lo hi)
    with assms b show ?thesis
      by (auto simp: getHeelCorrectionWithInterpolation_def message_falsy_def Let_def
          split: list.splits)
  qed
qed

text \<open>
  C3. Where the sounding evaluator succeeds, the composite resolver gives the same
  result for a heel that is left out, a heel that is null and a heel that is the number
  zero: the heel correction is 0, the final volume is the base volume, and there is no
  heel interpolation record.
\<close>

theorem heel_zero_identity:
  assumes "getSoundingDataWithInterpolation fl stbl cid u t = Inr b"
  shows "getCompleteSoundingData fl stbl htbl cid u t (Number 0) =
           getCompleteSoundingData fl stbl htbl cid u t Undefined \<and>
         getCompleteSoundingData fl stbl htbl cid u t Null =
           getCompleteSoundingData fl stbl htbl cid u t Undefined \<and>
         getCompleteSoundingData fl stbl htbl cid u t Undefined =
           Inr \<lparr>base_volume = volume b, heel_correction = 0, final_volume = volume b,
                sound = sound b, ullage = ullage b, lcg = lcg b, tcg = tcg b, vcg = vcg b,
                iy = iy b,
                main_interpolation = \<lparr>m_type = interpolation_used b,
                                       m_bounds = interpolation_bounds b\<rparr>,
                heel_interpolation = None\<rparr>"
  using assms by (simp add: getCompleteSoundingData_def)

theorem heel_zero_identity_witness:
  "getSoundingDataWithInterpolation double example_tbl 1 150 0 =
     Inr \<lparr>interpolation_used = ''ullage_only'',
          interpolation_bounds = Some \<lparr>b_ullage = \<lparr>lower = 100, upper = 200\<rparr>,
                                       b_trim = None, b_heel = None\<rparr>,
          volume = 60, sound = None, ullage = 150, lcg = 11, tcg = 2, vcg = 3, iy = 40\<rparr> \<and>
   getCompleteSoundingData double example_tbl example_heel_tbl 1 150 0 (Number 0) =
     getCompleteSoundingData double example_tbl example_heel_tbl 1 150 0 Undefined \<and>
   getCompleteSoundingData double example_tbl example_heel_tbl 1 150 0 Undefined =
     Inr \<lparr>base_volume = 60, heel_correction = 0, final_volume = 60,
          sound = None, ullage = 150, lcg = 11, tcg = 2, vcg = 3, iy = 40,
          main_interpolation =
            \<lparr>m_type = ''ullage_only'',
             m_bounds = Some \<lparr>b_ullage = \<lparr>lower = 100, upper = 200\<rparr>,
                              b_trim = None, b_heel = None\<rparr>\<rparr>,
          heel_interpolation = None\<rparr>"
  using heel_zero_identity[OF example_sounding_ullage_only, of example_heel_tbl]
  by (simp add: example_sounding_ullage_only)

text \<open>
  C4. Where the sounding evaluator succeeds with base volume \<open>v\<close> and the heel
  correction evaluator, run for a heel that is a number other than zero, fails with a
  message, the composite resolver still succeeds: the heel correction is 0, the final
  volume is \<open>v\<close>, and the message is in the heel interpolation record, whose type is
  \<open>error\<close>.
\<close>

theorem heel_failure_isolated:
  assumes "getSoundingDataWithInterpolation fl stbl cid u t = Inr b"
    and "h \<noteq> 0"
    and "getHeelCorrectionWithInterpolation fl htbl cid u h = Inl e"
  shows "getCompleteSoundingData fl stbl htbl cid u t (Number h) =
           Inr \<lparr>base_volume = volume b, heel_correction = 0, final_volume = volume b,
                sound = sound b, ullage = ullage b, lcg = lcg b, tcg = tcg b, vcg = vcg b,
                iy = iy b,
                main_interpolation = \<lparr>m_type = interpolation_used b,
                                       m_bounds = interpolation_bounds b\<rparr>,
                heel_interpolation =
                  Some \<lparr>h_type = ''error'', h_bounds = None, h_error = Some e\<rparr>\<rparr>"
  using assms heel_error_message[OF assms(3)] by (simp add: getCompleteSoundingData_def)

theorem heel_failure_isolated_witness:
  "getSoundingDataWithInterpolation double example_tbl 1 150 0 =
     Inr \<lparr>interpolation_used = ''ullage_only'',
          interpolation_bounds = Some \<lparr>b_ullage = \<lparr>lower = 100, upper = 200\<rparr>,
                                       b_trim = None, b_heel = None\<rparr>,
          volume = 60, sound = None, ullage = 150, lcg = 11, tcg = 2, vcg = 3, iy = 40\<rparr> \<and>
   (5 :: real) \<noteq> 0 \<and>
   getHeelCorrectionWithInterpolation double example_heel_tbl 1 150 5 =
     Inl [Txt ''Heel '', Num 5, Txt '' is above maximum supported heel '', Num 3] \<and>
   getCompleteSoundingData double example_tbl example_heel_tbl 1 150 0 (Number 5) =
     Inr \<lparr>base_volume = 60, heel_correction = 0, final_volume = 60,
          sound = None, ullage = 150, lcg = 11, tcg = 2, vcg = 3, iy = 40,
          main_interpolation =
            \<lparr>m_type = ''ullage_only'',
             m_bounds = Some \<lparr>b_ullage = \<lparr>lower = 100, upper = 200\<rparr>,
                              b_trim = None, b_heel = None\<rparr>\<rparr>,
          heel_interpolation =
            Some \<lparr>h_type = ''error'', h_bounds = None,
                  h_error = Some [Txt ''Heel '', Num 5,
                                  Txt '' is above maximum supported heel '', Num 3]\<rparr>\<rparr>"
proof -
  have n: "(5 :: real) \<noteq> 0" by simp
  from heel_failure_isolated[OF example_sounding_ullage_only n example_heel_out_of_range]
  show ?thesis
    by (simp add: example_sounding_ullage_only example_heel_out_of_range)
qed

subsection \<open>Midpoint of two adjacent ullage rows\<close>

lemma adjacent_index:
  fixes us :: "real list"
  assumes s: "sorted_wrt (<) us" and a: "a \<in> set us" and b: "b \<in> set us" and lt: "a < b"
    and adj: "\<forall>x\<in>set us. \<not> (a < x \<and> x < b)"
  shows "\<exists>i. Suc i < length us \<and> us ! i = a \<and> us ! Suc i = b"
proof -
  from a obtain i where i: "i < length us" "us ! i = a" by (auto simp: in_set_conv_nth)
  from b obtain j where j: "j < length us" "us ! j = b" by (auto simp: in_set_conv_nth)
  have ij: "i < j"
  proof (rule ccontr)
    assume "\<not> i < j"
    then have "j = i \<or> j < i" by auto
    then show False
    proof
      assume "j = i" with i j lt show False by simp
    next
      assume "j < i"
      from sorted_wrt_nth_less[OF s this i(1)] have "us ! j < us ! i" .
      with i j lt show False by simp
    qed
  qed
  have "j = Suc i"
  proof (rule ccontr)
    assume "j \<noteq> Suc i"
    with ij have m: "Suc i < j" by simp
    with j have l: "Suc i < length us" by simp
    have "us ! i < us ! Suc i" using sorted_wrt_nth_less[OF s _ l, of i] by simp
    moreover have "us ! Suc i < us ! j" using sorted_wrt_nth_less[OF s m j(1)] .
    moreover have "us ! Suc i \<in> set us" using l by simp
    ultimately show False using adj i j by blast
  qed
  with i j show ?thesis by auto
qed

lemma getUllageBounds_adjacent:
  assumes a: "a \<in> set (query_ullages tbl cid)" and b: "b \<in> set (query_ullages tbl cid)"
    and lo: "a < t" and hi: "t < b"
    and adj: "\<forall>x\<in>set (query_ullages tbl cid). \<not> (a < x \<and> x < b)"
  shows "getUllageBounds tbl cid t = Bracket a b"
proof -
  from lo hi have "a < b" by simp
  from adjacent_index[OF query_ullages_sorted a b this adj] obtain i where
    i: "Suc i < length (query_ullages tbl cid)" "query_ullages tbl cid ! i = a"
       "query_ullages tbl cid ! Suc i = b"
    by blast
  show ?thesis
    unfolding getUllageBounds_def
    using ullage_bounds_of_bracket[OF query_ullages_sorted i(1), of t] lo hi i(2,3)
    by simp
qed

lemma linearInterpolate_midpoint:
  "x1 \<noteq> x2 \<Longrightarrow> linearInterpolate (\<lambda>x. x) x1 y1 x2 y2 ((x1 + x2) / 2) = (y1 + y2) / 2"
  by (simp add: linearInterpolate_def field_simps)

text \<open>
  C9. Two rows of a compartment that are adjacent in ullage (no row of the compartment
  lies strictly between them, and no two rows share an ullage) hold the numbers \<open>v1\<close>
  and \<open>v2\<close> in the column of an exactly matched trim level. A query at the mean of
  their ullages, with no heel, returns base volume and final volume \<open>(v1 + v2) / 2\<close>
  with mode \<open>ullage_only\<close> in exact arithmetic. In any arithmetic, doubles among
  them, the query succeeds with that mode and returns as base and final volume the
  interpolator's value at the mean, which is \<open>(v1 + v2) / 2\<close> up to its rounding and
  is 60 in the scenario of the witness.
\<close>

theorem midpoint_volume:
  assumes "p \<in> set trimRanges"
    and "distinct (map row_ullage (filter (\<lambda>r. compartment_id r = cid) tbl))"
    and "r1 \<in> set tbl" and "compartment_id r1 = cid"
    and "r2 \<in> set tbl" and "compartment_id r2 = cid"
    and "row_ullage r1 < row_ullage r2"
    and "\<forall>r\<in>set tbl. compartment_id r = cid \<longrightarrow>
           \<not> (row_ullage r1 < row_ullage r \<and> row_ullage r < row_ullage r2)"
    and "row_cells r1 (column p) = Some v1" and "row_cells r2 (column p) = Some v2"
  shows "(\<exists>res. getCompleteSoundingData (\<lambda>x. x) tbl htbl cid
                  ((row_ullage r1 + row_ullage r2) / 2) (val p) Undefined = Inr res \<and>
               base_volume res = (v1 + v2) / 2 \<and> final_volume res = (v1 + v2) / 2 \<and>
               complete_data.heel_correction res = 0 \<and>
               m_type (main_interpolation res) = ''ullage_only'' \<and>
               m_bounds (main_interpolation res) =
                 Some \<lparr>b_ullage = \<lparr>lower = row_ullage r1, upper = row_ullage r2\<rparr>,
                       b_trim = None, b_heel = None\<rparr>) \<and>
         (\<exists>res. getCompleteSoundingData fl tbl htbl cid
                  ((row_ullage r1 + row_ullage r2) / 2) (val p) Undefined = Inr res \<and>
               base_volume res =
                 linearInterpolate fl (row_ullage r1) v1 (row_ullage r2) v2
                   ((row_ullage r1 + row_ullage r2) / 2) \<and>
               final_volume res = base_volume res \<and>
               complete_data.heel_correction res = 0 \<and>
               m_type (main_interpolation res) = ''ullage_only'' \<and>
               m_bounds (main_interpolation res) =
                 Some \<lparr>b_ullage = \<lparr>lower = row_ullage r1, upper = row_ullage r2\<rparr>,
                       b_trim = None, b_heel = None\<rparr>)"
proof -
  let ?u = "(row_ullage r1 + row_ullage r2) / 2"
  have t: "getTrimBounds (val p) = Exact (column p)"
    using assms(1) by (rule getTrimBounds_exact)
  have m: "row_ullage r1 \<in> set (query_ullages tbl cid)" "row_ullage r2 \<in> set (query_ullages tbl cid)"
    using assms(3-6) by (auto simp: set_query_ullages)
  have adj: "\<forall>x\<in>set (query_ullages tbl cid). \<not> (row_ullage r1 < x \<and> x < row_ullage r2)"
    using assms(8) by (auto simp: set_query_ullages)
  have b: "getUllageBounds tbl cid ?u = Bracket (row_ullage r1) (row_ullage r2)"
    using m _ _ adj by (rule getUllageBounds_adjacent) (use assms(7) in simp_all)
  from bracket_rows[OF b assms(2)] obtain lr ur where
    q: "query_in tbl cid (row_ullage r1) (row_ullage r2) = [lr, ur]" and
    r: "lr \<in> set tbl" "ur \<in> set tbl" "compartment_id lr = cid" "compartment_id ur = cid"
       "row_ullage lr = row_ullage r1" "row_ullage ur = row_ullage r2"
    by blast
  have inj: "inj_on row_ullage (set (filter (\<lambda>r. compartment_id r = cid) tbl))"
    using assms(2) by (simp add: distinct_map)
  have "lr = r1" using inj r(1,3,5) assms(3,4) by (auto dest: inj_onD)
  moreover have "ur = r2" using inj r(2,4,6) assms(5,6) by (auto dest: inj_onD)
  ultimately have q': "query_in tbl cid (row_ullage r1) (row_ullage r2) = [r1, r2]"
    using q by simp
  have ne: "row_ullage r1 \<noteq> row_ullage r2" using assms(7) by simp
  show ?thesis
    by (simp add: getCompleteSoundingData_def sounding_ullage_only_result[OF t b q']
        assms(9,10) linearInterpolate_midpoint[OF ne])
qed

lemma example_adjacent:
  "\<forall>r\<in>set example_tbl. compartment_id r = 1 \<longrightarrow>
     \<not> (row_ullage row_1_100 < row_ullage r \<and> row_ullage r < row_ullage row_1_200)"
  by (simp add: example_tbl_def)

theorem midpoint_volume_witness:
  "\<lparr>val = 0, column = ''trim_0_0''\<rparr> \<in> set trimRanges \<and>
   distinct (map row_ullage (filter (\<lambda>r. compartment_id r = 1) example_tbl)) \<and>
   row_1_100 \<in> set example_tbl \<and> compartment_id row_1_100 = 1 \<and>
   row_1_200 \<in> set example_tbl \<and> compartment_id row_1_200 = 1 \<and>
   row_ullage row_1_100 = 100 \<and> row_ullage row_1_200 = 200 \<and>
   query_ullages example_tbl 1 = [100, 200] \<and>
   row_cells row_1_100 ''trim_0_0'' = Some 50 \<and> row_cells row_1_200 ''trim_0_0'' = Some 70 \<and>
   (\<exists>res. getCompleteSoundingData (\<lambda>x. x) example_tbl example_heel_tbl 1 150 0 Undefined = Inr res \<and>
      base_volume res = 60 \<and> final_volume res = 60 \<and>
      m_type (main_interpolation res) = ''ullage_only'') \<and>
   (\<exists>res. getCompleteSoundingData double example_tbl example_heel_tbl 1 150 0 Undefined = Inr res \<and>
      base_volume res = 60 \<and> final_volume res = 60 \<and>
      m_type (main_interpolation res) = ''ullage_only'')"
proof -
  have h: "\<lparr>val = 0, column = ''trim_0_0''\<rparr> \<in> set trimRanges"
    "row_1_100 \<in> set example_tbl" "compartment_id row_1_100 = 1"
    "row_1_200 \<in> set example_tbl" "compartment_id row_1_200 = 1"
    "row_ullage row_1_100 < row_ullage row_1_200"
    by (simp_all add: trimRanges_def example_tbl_def)
  have c: "row_cells row_1_100 (column \<lparr>val = 0, column = ''trim_0_0''\<rparr>) = Some 50"
    "row_cells row_1_200 (column \<lparr>val = 0, column = ''trim_0_0''\<rparr>) = Some 70"
    by (simp_all add: example_cells)
  note m = midpoint_volume[OF h(1) example_distinct(1) h(2,3,4,5,6) example_adjacent c,
      of example_heel_tbl double]
  have i: "linearInterpolate double 100 50 200 70 150 = 60"
    by (simp add: eval_arith)
  from m obtain res where
    "getCompleteSoundingData (\<lambda>x. x) example_tbl example_heel_tbl 1 150 0 Undefined = Inr res"
    "base_volume res = 60" "final_volume res = 60"
    "m_type (main_interpolation res) = ''ullage_only''"
    by auto
  then have e: "\<exists>res. getCompleteSoundingData (\<lambda>x. x) example_tbl example_heel_tbl 1 150 0 Undefined = Inr res \<and>
      base_volume res = 60 \<and> final_volume res = 60 \<and>
      m_type (main_interpolation res) = ''ullage_only''"
    by blast
  from m i obtain res where
    "getCompleteSoundingData double example_tbl example_heel_tbl 1 150 0 Undefined = Inr res"
    "base_volume res = 60" "final_volume res = 60"
    "m_type (main_interpolation res) = ''ullage_only''"
    by auto
  then have d: "\<exists>res. getCompleteSoundingData double example_tbl example_heel_tbl 1 150 0 Undefined = Inr res \<and>
      base_volume res = 60 \<and> final_volume res = 60 \<and>
      m_type (main_interpolation res) = ''ullage_only''"
    by blast
  from e d show ?thesis
    using h(1,2,4) example_distinct(1)
    by (simp add: example_cells example_ullages)
qed

subsection \<open>Cells that are not numbers\<close>

lemma insort_key_map_keys:
  "(\<And>x. f (g x) = f x) \<Longrightarrow> insort_key f (g x) (map g ys) = map g (insort_key f x ys)"
  by (induction ys) simp_all

lemma sort_key_map_keys:
  "(\<And>x. f (g x) = f x) \<Longrightarrow> sort_key f (map g xs) = map g (sort_key f xs)"
  by (induction xs) (simp_all add: insort_key_map_keys)

lemma zero_fill_keys [simp]:
  "compartment_id (zero_fill r) = compartment_id r" "row_ullage (zero_fill r) = row_ullage r"
  by (simp_all add: zero_fill_def)

lemma zero_fill_cells [simp]:
  "or_zero (row_cells (zero_fill r) c) = or_zero (row_cells r c)"
  "or_null (row_cells (zero_fill r) c) = or_null (row_cells r c)"
  by (simp_all add: zero_fill_def split: option.splits)

lemma query_ullages_zero_fill:
  "query_ullages (map zero_fill tbl) cid = query_ullages tbl cid"
proof -
  have "map row_ullage (filter (\<lambda>r. compartment_id r = cid) (map zero_fill tbl)) =
        map row_ullage (filter (\<lambda>r. compartment_id r = cid) tbl)"
    by (induction tbl) simp_all
  then show ?thesis by (simp add: query_ullages_def)
qed

lemma zero_fill_queries:
  "query_exact (map zero_fill tbl) cid u = map zero_fill (query_exact tbl cid u)"
  "query_in (map zero_fill tbl) cid a b = map zero_fill (query_in tbl cid a b)"
  "getUllageBounds (map zero_fill tbl) cid u = getUllageBounds tbl cid u"
  "getHeelUllageBounds (map zero_fill tbl) cid u = getHeelUllageBounds tbl cid u"
  by (simp_all add: query_exact_def query_in_def filter_map o_def take_map sort_key_map_keys
      getUllageBounds_def getHeelUllageBounds_def query_ullages_zero_fill)

lemma sounding_ullage_zero_fill:
  "getSoundingWithUllageInterpolation fl (map zero_fill tbl) cid u col t =
   getSoundingWithUllageInterpolation fl tbl cid u col t"
  by (auto simp: getSoundingWithUllageInterpolation_def zero_fill_queries
      split: bounds.splits list.splits)

lemma sounding_zero_fill:
  "getSoundingDataWithInterpolation fl (map zero_fill tbl) cid u t =
   getSoundingDataWithInterpolation fl tbl cid u t"
  by (auto simp: getSoundingDataWithInterpolation_def zero_fill_queries sounding_ullage_zero_fill
      split: bounds.splits list.splits)

lemma heel_ullage_zero_fill:
  "getHeelCorrectionWithUllageInterpolation fl (map zero_fill tbl) cid u col h =
   getHeelCorrectionWithUllageInterpolation fl tbl cid u col h"
  by (auto simp: getHeelCorrectionWithUllageInterpolation_def zero_fill_queries
      split: bounds.splits list.splits)

lemma heel_zero_fill:
  "getHeelCorrectionWithInterpolation fl (map zero_fill tbl) cid u h =
   getHeelCorrectionWithInterpolation fl tbl cid u h"
  by (auto simp: getHeelCorrectionWithInterpolation_def zero_fill_queries heel_ullage_zero_fill
      split: bounds.splits list.splits)

lemma exact_first_row:
  assumes "getUllageBounds tbl cid u = Exact e \<or> getHeelUllageBounds tbl cid u = Exact e"
  shows "\<exists>row. query_exact tbl cid e = [row] \<and> row \<in> set tbl \<and>
           compartment_id row = cid \<and> row_ullage row = u"
proof -
  from assms have "e = u \<and> u \<in> set (query_ullages tbl cid)"
    using getUllageBounds_ExactD getHeelUllageBounds_ExactD by blast
  then show ?thesis using exact_row_of[of u tbl cid] by auto
qed

text \<open>
  C10. On every interpolation path of the sounding evaluator (\<open>ullage_only\<close>,
  \<open>trim_only\<close>, \<open>bilinear\<close>) and of the heel correction evaluator (\<open>ullage_only\<close>,
  \<open>heel_only\<close>, \<open>bilinear\<close>), once the resolvers have found their exact match or
  bracket (and, where two rows are needed, no two rows of the compartment share an
  ullage), the query succeeds whatever the cells hold, and its result is computed from
  the cells of the bracketing rows with every cell that is not a number (and every
  zero) counted as 0: \<open>z\<close> below. The sound that is read without interpolation is absent
  when its cell is zero or not a number. So both evaluators return on any table what
  they return on the table with those cells replaced by the number 0.
\<close>

theorem unreadable_cells_read_as_zero:
  "let z = (\<lambda>c. case c of None \<Rightarrow> (0 :: real) | Some v \<Rightarrow> v) in
   (getTrimBounds t1 = Exact col1 \<and> getUllageBounds tbl cid u1 = Bracket lo1 hi1 \<and>
    distinct (map row_ullage (filter (\<lambda>r. compartment_id r = cid) tbl)) \<longrightarrow>
    (\<exists>lr ur. lr \<in> set tbl \<and> ur \<in> set tbl \<and> compartment_id lr = cid \<and> compartment_id ur = cid \<and>
       row_ullage lr = lo1 \<and> row_ullage ur = hi1 \<and>
       getSoundingDataWithInterpolation fl tbl cid u1 t1 =
         Inr \<lparr>interpolation_used = ''ullage_only'',
              interpolation_bounds = Some \<lparr>b_ullage = \<lparr>lower = lo1, upper = hi1\<rparr>,
                                           b_trim = None, b_heel = None\<rparr>,
              volume = linearInterpolate fl lo1 (z (row_cells lr col1))
                         hi1 (z (row_cells ur col1)) u1,
              sound = round_or_null (linearInterpolate fl lo1 (z (row_cells lr ''sound''))
                         hi1 (z (row_cells ur ''sound'')) u1),
              ullage = u1,
              lcg = linearInterpolate fl lo1 (z (row_cells lr ''lcg''))
                      hi1 (z (row_cells ur ''lcg'')) u1,
              tcg = linearInterpolate fl lo1 (z (row_cells lr ''tcg''))
                      hi1 (z (row_cells ur ''tcg'')) u1,
              vcg = linearInterpolate fl lo1 (z (row_cells lr ''vcg''))
                      hi1 (z (row_cells ur ''vcg'')) u1,
              iy = linearInterpolate fl lo1 (z (row_cells lr ''iy''))
                     hi1 (z (row_cells ur ''iy'')) u1\<rparr>)) \<and>
   (getTrimBounds t2 = Bracket lt2 ut2 \<and> getUllageBounds tbl cid u2 = Exact e2 \<longrightarrow>
    (\<exists>row. row \<in> set tbl \<and> compartment_id row = cid \<and> row_ullage row = u2 \<and>
       getSoundingDataWithInterpolation fl tbl cid u2 t2 =
         Inr \<lparr>interpolation_used = ''trim_only'', interpolation_bounds = None,
              volume = linearInterpolate fl (val lt2) (z (row_cells row (column lt2)))
                         (val ut2) (z (row_cells row (column ut2))) t2,
              sound = (case row_cells row ''sound'' of None \<Rightarrow> None
                       | Some s \<Rightarrow> if s = 0 then None else Some s),
              ullage = u2,
              lcg = z (row_cells row ''lcg''), tcg = z (row_cells row ''tcg''),
              vcg = z (row_cells row ''vcg''), iy = z (row_cells row ''iy'')\<rparr>)) \<and>
   (getTrimBounds t3 = Bracket lt3 ut3 \<and> getUllageBounds tbl cid u3 = Bracket lo3 hi3 \<and>
    distinct (map row_ullage (filter (\<lambda>r. compartment_id r = cid) tbl)) \<longrightarrow>
    (\<exists>lr ur. lr \<in> set tbl \<and> ur \<in> set tbl \<and> compartment_id lr = cid \<and> compartment_id ur = cid \<and>
       row_ullage lr = lo3 \<and> row_ullage ur = hi3 \<and>
       getSoundingDataWithInterpolation fl tbl cid u3 t3 =
         Inr \<lparr>interpolation_used = ''bilinear'',
              interpolation_bounds = Some \<lparr>b_ullage = \<lparr>lower = lo3, upper = hi3\<rparr>,
                                           b_trim = Some \<lparr>lower = val lt3, upper = val ut3\<rparr>,
                                           b_heel = None\<rparr>,
              volume = linearInterpolate fl
                         lo3 (linearInterpolate fl (val lt3) (z (row_cells lr (column lt3)))
                                (val ut3) (z (row_cells lr (column ut3))) t3)
                         hi3 (linearInterpolate fl (val lt3) (z (row_cells ur (column lt3)))
                                (val ut3) (z (row_cells ur (column ut3))) t3)
                         u3,
              sound = round_or_null (linearInterpolate fl lo3 (z (row_cells lr ''sound''))
                         hi3 (z (row_cells ur ''sound'')) u3),
              ullage = u3,
              lcg = linearInterpolate fl lo3 (z (row_cells lr ''lcg''))
                      hi3 (z (row_cells ur ''lcg'')) u3,
              tcg = linearInterpolate fl lo3 (z (row_cells lr ''tcg''))
                      hi3 (z (row_cells ur ''tcg'')) u3,
              vcg = linearInterpolate fl lo3 (z (row_cells lr ''vcg''))
                      hi3 (z (row_cells ur ''vcg'')) u3,
              iy = linearInterpolate fl lo3 (z (row_cells lr ''iy''))
                     hi3 (z (row_cells ur ''iy'')) u3\<rparr>)) \<and>
   (getHeelBounds h4 = Exact col4 \<and> getHeelUllageBounds htbl cid u4 = Bracket lo4 hi4 \<and>
    distinct (map row_ullage (filter (\<lambda>r. compartment_id r = cid) htbl)) \<longrightarrow>
    (\<exists>lr ur. lr \<in> set htbl \<and> ur \<in> set htbl \<and> compartment_id lr = cid \<and> compartment_id ur = cid \<and>
       row_ullage lr = lo4 \<and> row_ullage ur = hi4 \<and>
       getHeelCorrectionWithInterpolation fl htbl cid u4 h4 =
         Inr \<lparr>interpolation_used = ''ullage_only'',
              interpolation_bounds = Some \<lparr>b_ullage = \<lparr>lower = lo4, upper = hi4\<rparr>,
                                           b_trim = None, b_heel = None\<rparr>,
              heel_correction = linearInterpolate fl lo4 (z (row_cells lr col4))
                                  hi4 (z (row_cells ur col4)) u4\<rparr>)) \<and>
   (getHeelBounds h5 = Bracket lh5 uh5 \<and> getHeelUllageBounds htbl cid u5 = Exact e5 \<longrightarrow>
    (\<exists>row. row \<in> set htbl \<and> compartment_id row = cid \<and> row_ullage row = u5 \<and>
       getHeelCorrectionWithInterpolation fl htbl cid u5 h5 =
         Inr \<lparr>interpolation_used = ''heel_only'', interpolation_bounds = None,
              heel_correction =
                linearInterpolate fl (val lh5) (z (row_cells row (column lh5)))
                  (val uh5) (z (row_cells row (column uh5))) h5\<rparr>)) \<and>
   (getHeelBounds h6 = Bracket lh6 uh6 \<and> getHeelUllageBounds htbl cid u6 = Bracket lo6 hi6 \<and>
    distinct (map row_ullage (filter (\<lambda>r. compartment_id r = cid) htbl)) \<longrightarrow>
    (\<exists>lr ur. lr \<in> set htbl \<and> ur \<in> set htbl \<and> compartment_id lr = cid \<and> compartment_id ur = cid \<and>
       row_ullage lr = lo6 \<and> row_ullage ur = hi6 \<and>
       getHeelCorrectionWithInterpolation fl htbl cid u6 h6 =
         Inr \<lparr>interpolation_used = ''bilinear'',
              interpolation_bounds = Some \<lparr>b_ullage = \<lparr>lower = lo6, upper = hi6\<rparr>,
                                           b_trim = None,
                                           b_heel = Some \<lparr>lower = val lh6, upper = val uh6\<rparr>\<rparr>,
              heel_correction =
                linearInterpolate fl
                  lo6 (linearInterpolate fl (val lh6) (z (row_cells lr (column lh6)))
                         (val uh6) (z (row_cells lr (column uh6))) h6)
                  hi6 (linearInterpolate fl (val lh6) (z (row_cells ur (column lh6)))
                         (val uh6) (z (row_cells ur (column uh6))) h6)
                  u6\<rparr>)) \<and>
   getSoundingDataWithInterpolation fl (map zero_fill tbl) cid u t =
     getSoundingDataWithInterpolation fl tbl cid u t \<and>
   getHeelCorrectionWithInterpolation fl (map zero_fill htbl) cid u h =
     getHeelCorrectionWithInterpolation fl htbl cid u h"
proof -
  have p1: "\<exists>lr ur. lr \<in> set tbl \<and> ur \<in> set tbl \<and> compartment_id lr = cid \<and> compartment_id ur = cid \<and>
       row_ullage lr = lo1 \<and> row_ullage ur = hi1 \<and>
       getSoundingDataWithInterpolation fl tbl cid u1 t1 =
         Inr \<lparr>interpolation_used = ''ullage_only'',
              interpolation_bounds = Some \<lparr>b_ullage = \<lparr>lower = lo1, upper = hi1\<rparr>,
                                           b_trim = None, b_heel = None\<rparr>,
              volume = linearInterpolate fl lo1 (or_zero (row_cells lr col1))
                         hi1 (or_zero (row_cells ur col1)) u1,
              sound = round_or_null (linearInterpolate fl lo1 (or_zero (row_cells lr ''sound''))
                         hi1 (or_zero (row_cells ur ''sound'')) u1),
              ullage = u1,
              lcg = linearInterpolate fl lo1 (or_zero (row_cells lr ''lcg''))
                      hi1 (or_zero (row_cells ur ''lcg'')) u1,
              tcg = linearInterpolate fl lo1 (or_zero (row_cells lr ''tcg''))
                      hi1 (or_zero (row_cells ur ''tcg'')) u1,
              vcg = linearInterpolate fl lo1 (or_zero (row_cells lr ''vcg''))
                      hi1 (or_zero (row_cells ur ''vcg'')) u1,
              iy = linearInterpolate fl lo1 (or_zero (row_cells lr ''iy''))
                     hi1 (or_zero (row_cells ur ''iy'')) u1\<rparr>"
    if a: "getTrimBounds t1 = Exact col1" "getUllageBounds tbl cid u1 = Bracket lo1 hi1"
      "distinct (map row_ullage (filter (\<lambda>r. compartment_id r = cid) tbl))"
  proof -
    from bracket_rows[OF a(2,3)] obtain lr ur where
      q: "query_in tbl cid lo1 hi1 = [lr, ur]" and
      r: "lr \<in> set tbl" "ur \<in> set tbl" "compartment_id lr = cid" "compartment_id ur = cid"
         "row_ullage lr = lo1" "row_ullage ur = hi1"
      by blast
    show ?thesis
      using r sounding_ullage_only_result[OF a(1,2) q, of fl] by blast
  qed
  have p2: "\<exists>row. row \<in> set tbl \<and> compartment_id row = cid \<and> row_ullage row = u2 \<and>
       getSoundingDataWithInterpolation fl tbl cid u2 t2 =
         Inr \<lparr>interpolation_used = ''trim_only'', interpolation_bounds = None,
              volume = linearInterpolate fl (val lt2) (or_zero (row_cells row (column lt2)))
                         (val ut2) (or_zero (row_cells row (column ut2))) t2,
              sound = or_null (row_cells row ''sound''),
              ullage = u2,
              lcg = or_zero (row_cells row ''lcg''), tcg = or_zero (row_cells row ''tcg''),
              vcg = or_zero (row_cells row ''vcg''), iy = or_zero (row_cells row ''iy'')\<rparr>"
    if a: "getTrimBounds t2 = Bracket lt2 ut2" "getUllageBounds tbl cid u2 = Exact e2"
  proof -
    from exact_first_row[of tbl cid u2 e2] a(2) obtain row where
      q: "query_exact tbl cid e2 = [row]" and
      r: "row \<in> set tbl" "compartment_id row = cid" "row_ullage row = u2"
      by blast
    show ?thesis
      using r sounding_trim_only_result[OF a q, of fl] by blast
  qed
  have p3: "\<exists>lr ur. lr \<in> set tbl \<and> ur \<in> set tbl \<and> compartment_id lr = cid \<and> compartment_id ur = cid \<and>
       row_ullage lr = lo3 \<and> row_ullage ur = hi3 \<and>
       getSoundingDataWithInterpolation fl tbl cid u3 t3 =
         Inr \<lparr>interpolation_used = ''bilinear'',
              interpolation_bounds = Some \<lparr>b_ullage = \<lparr>lower = lo3, upper = hi3\<rparr>,
                                           b_trim = Some \<lparr>lower = val lt3, upper = val ut3\<rparr>,
                                           b_heel = None\<rparr>,
              volume = linearInterpolate fl
                         lo3 (linearInterpolate fl (val lt3) (or_zero (row_cells lr (column lt3)))
                                (val ut3) (or_zero (row_cells lr (column ut3))) t3)
                         hi3 (linearInterpolate fl (val lt3) (or_zero (row_cells ur (column lt3)))
                                (val ut3) (or_zero (row_cells ur (column ut3))) t3)
                         u3,
              sound = round_or_null (linearInterpolate fl lo3 (or_zero (row_cells lr ''sound''))
                         hi3 (or_zero (row_cells ur ''sound'')) u3),
              ullage = u3,
              lcg = linearInterpolate fl lo3 (or_zero (row_cells lr ''lcg''))
                      hi3 (or_zero (row_cells ur ''lcg'')) u3,
              tcg = linearInterpolate fl lo3 (or_zero (row_cells lr ''tcg''))
                      hi3 (or_zero (row_cells ur ''tcg'')) u3,
              vcg = linearInterpolate fl lo3 (or_zero (row_cells lr ''vcg''))
                      hi3 (or_zero (row_cells ur ''vcg'')) u3,
              iy = linearInterpolate fl lo3 (or_zero (row_cells lr ''iy''))
                     hi3 (or_zero (row_cells ur ''iy'')) u3\<rparr>"
    if a: "getTrimBounds t3 = Bracket lt3 ut3" "getUllageBounds tbl cid u3 = Bracket lo3 hi3"
      "distinct (map row_ullage (filter (\<lambda>r. compartment_id r = cid) tbl))"
  proof -
    from bracket_rows[OF a(2,3)] obtain lr ur where
      q: "query_in tbl cid lo3 hi3 = [lr, ur]" and
      r: "lr \<in> set tbl" "ur \<in> set tbl" "compartment_id lr = cid" "compartment_id ur = cid"
         "row_ullage lr = lo3" "row_ullage ur = hi3"
      by blast
    show ?thesis
      using r sounding_bilinear_result[OF a(1,2) q, of fl] by blast
  qed
  have p4: "\<exists>lr ur. lr \<in> set htbl \<and> ur \<in> set htbl \<and> compartment_id lr = cid \<and> compartment_id ur = cid \<and>
       row_ullage lr = lo4 \<and> row_ullage ur = hi4 \<and>
       getHeelCorrectionWithInterpolation fl htbl cid u4 h4 =
         Inr \<lparr>interpolation_used = ''ullage_only'',
              interpolation_bounds = Some \<lparr>b_ullage = \<lparr>lower = lo4, upper = hi4\<rparr>,
                                           b_trim = None, b_heel = None\<rparr>,
              heel_correction = linearInterpolate fl lo4 (or_zero (row_cells lr col4))
                                  hi4 (or_zero (row_cells ur col4)) u4\<rparr>"
    if a: "getHeelBounds h4 = Exact col4" "getHeelUllageBounds htbl cid u4 = Bracket lo4 hi4"
      "distinct (map row_ullage (filter (\<lambda>r. compartment_id r = cid) htbl))"
  proof -
    from heel_bracket_rows[OF a(2,3)] obtain lr ur where
      q: "query_in htbl cid lo4 hi4 = [lr, ur]" and
      r: "lr \<in> set htbl" "ur \<in> set htbl" "compartment_id lr = cid" "compartment_id ur = cid"
         "row_ullage lr = lo4" "row_ullage ur = hi4"
      by blast
    show ?thesis
      using r heel_ullage_only_result[OF a(1,2) q, of fl] by blast
  qed
  have p5: "\<exists>row. row \<in> set htbl \<and> compartment_id row = cid \<and> row_ullage row = u5 \<and>
       getHeelCorrectionWithInterpolation fl htbl cid u5 h5 =
         Inr \<lparr>interpolation_used = ''heel_only'', interpolation_bounds = None,
              heel_correction =
                linearInterpolate fl (val lh5) (or_zero (row_cells row (column lh5)))
                  (val uh5) (or_zero (row_cells row (column uh5))) h5\<rparr>"
    if a: "getHeelBounds h5 = Bracket lh5 uh5" "getHeelUllageBounds htbl cid u5 = Exact e5"
  proof -
    from exact_first_row[of htbl cid u5 e5] a(2) obtain row where
      q: "query_exact htbl cid e5 = [row]" and
      r: "row \<in> set htbl" "compartment_id row = cid" "row_ullage row = u5"
      by blast
    show ?thesis
      using r heel_only_result[OF a q, of fl] by blast
  qed
  have p6: "\<exists>lr ur. lr \<in> set htbl \<and> ur \<in> set htbl \<and> compartment_id lr = cid \<and> compartment_id ur = cid \<and>
       row_ullage lr = lo6 \<and> row_ullage ur = hi6 \<and>
       getHeelCorrectionWithInterpolation fl htbl cid u6 h6 =
         Inr \<lparr>interpolation_used = ''bilinear'',
              interpolation_bounds = Some \<lparr>b_ullage = \<lparr>lower = lo6, upper = hi6\<rparr>,
                                           b_trim = None,
                                           b_heel = Some \<lparr>lower = val lh6, upper = val uh6\<rparr>\<rparr>,
              heel_correction =
                linearInterpolate fl
                  lo6 (linearInterpolate fl (val lh6) (or_zero (row_cells lr (column lh6)))
                         (val uh6) (or_zero (row_cells lr (column uh6))) h6)
                  hi6 (linearInterpolate fl (val lh6) (or_zero (row_cells ur (column lh6)))
                         (val uh6) (or_zero (row_cells ur (column uh6))) h6)
                  u6\<rparr>"
    if a: "getHeelBounds h6 = Bracket lh6 uh6" "getHeelUllageBounds htbl cid u6 = Bracket lo6 hi6"
      "distinct (map row_ullage (filter (\<lambda>r. compartment_id r = cid) htbl))"
  proof -
    from heel_bracket_rows[OF a(2,3)] obtain lr ur where
      q: "query_in htbl cid lo6 hi6 = [lr, ur]" and
      r: "lr \<in> set htbl" "ur \<in> set htbl" "compartment_id lr = cid" "compartment_id ur = cid"
         "row_ullage lr = lo6" "row_ullage ur = hi6"
      by blast
    show ?thesis
      using r heel_bilinear_result[OF a(1,2) q, of fl] by blast
  qed
  have z: "(\<lambda>c. case c of None \<Rightarrow> (0 :: real) | Some v \<Rightarrow> v) = or_zero"
    by (rule ext) (simp add: or_zero_case)
  show ?thesis
    unfolding Let_def z or_null_case[symmetric]
    using p1 p2 p3 p4 p5 p6 sounding_zero_fill[of fl tbl cid u t] heel_zero_fill[of fl htbl cid u h]
    by (intro conjI impI) (elim conjE, assumption | assumption)+
qed

theorem unreadable_cells_read_as_zero_witness:
  "row_cells row_4_10 ''trim_0_0'' = None \<and> row_cells row_4_10 ''sound'' = None \<and>
   row_cells row_4_10 ''lcg'' = None \<and> row_cells row_4_20 ''trim_plus_0_5'' = None \<and>
   row_cells heel_row_4_10 ''heel_plus_1_0'' = None \<and>
   row_cells heel_row_4_20 ''heel_plus_0_5'' = None \<and>
   distinct (map row_ullage (filter (\<lambda>r. compartment_id r = 4) gap_tbl)) \<and>
   distinct (map row_ullage (filter (\<lambda>r. compartment_id r = 4) gap_heel_tbl)) \<and>
   getTrimBounds 0 = Exact ''trim_0_0'' \<and>
   getTrimBounds (1 / 4) =
     Bracket \<lparr>val = 0, column = ''trim_0_0''\<rparr> \<lparr>val = 1 / 2, column = ''trim_plus_0_5''\<rparr> \<and>
   getUllageBounds gap_tbl 4 15 = Bracket 10 20 \<and>
   getUllageBounds gap_tbl 4 10 = Exact 10 \<and>
   getHeelBounds 1 = Exact ''heel_plus_1_0'' \<and>
   getHeelBounds (3 / 4) =
     Bracket \<lparr>val = 1 / 2, column = ''heel_plus_0_5''\<rparr> \<lparr>val = 1, column = ''heel_plus_1_0''\<rparr> \<and>
   getHeelUllageBounds gap_heel_tbl 4 15 = Bracket 10 20 \<and>
   getHeelUllageBounds gap_heel_tbl 4 10 = Exact 10 \<and>
   getSoundingDataWithInterpolation double gap_tbl 4 15 0 =
     Inr \<lparr>interpolation_used = ''ullage_only'',
          interpolation_bounds = Some \<lparr>b_ullage = \<lparr>lower = 10, upper = 20\<rparr>,
                                       b_trim = None, b_heel = None\<rparr>,
          volume = 4, sound = Some 3, ullage = 15, lcg = 2, tcg = 2, vcg = 4, iy = 5\<rparr> \<and>
   linearInterpolate double 10 0 20 8 15 = 4 \<and>
   getSoundingDataWithInterpolation double gap_tbl 4 10 (1 / 4) =
     Inr \<lparr>interpolation_used = ''trim_only'', interpolation_bounds = None,
          volume = 3, sound = None, ullage = 10, lcg = 0, tcg = 1, vcg = 2, iy = 3\<rparr> \<and>
   linearInterpolate double 0 0 (1 / 2) 6 (1 / 4) = 3 \<and>
   getSoundingDataWithInterpolation double gap_tbl 4 15 (1 / 4) =
     Inr \<lparr>interpolation_used = ''bilinear'',
          interpolation_bounds = Some \<lparr>b_ullage = \<lparr>lower = 10, upper = 20\<rparr>,
                                       b_trim = Some \<lparr>lower = 0, upper = 1 / 2\<rparr>,
                                       b_heel = None\<rparr>,
          volume = 7 / 2, sound = Some 3, ullage = 15, lcg = 2, tcg = 2, vcg = 4, iy = 5\<rparr> \<and>
   linearInterpolate double 10 (linearInterpolate double 0 0 (1 / 2) 6 (1 / 4))
     20 (linearInterpolate double 0 8 (1 / 2) 0 (1 / 4)) 15 = 7 / 2 \<and>
   getHeelCorrectionWithInterpolation double gap_heel_tbl 4 15 1 =
     Inr \<lparr>interpolation_used = ''ullage_only'',
          interpolation_bounds = Some \<lparr>b_ullage = \<lparr>lower = 10, upper = 20\<rparr>,
                                       b_trim = None, b_heel = None\<rparr>,
          heel_correction = 1\<rparr> \<and>
   linearInterpolate double 10 0 20 2 15 = 1 \<and>
   getHeelCorrectionWithInterpolation double gap_heel_tbl 4 10 (3 / 4) =
     Inr \<lparr>interpolation_used = ''heel_only'', interpolation_bounds = None,
          heel_correction = 1 / 2\<rparr> \<and>
   linearInterpolate double (1 / 2) 1 1 0 (3 / 4) = 1 / 2 \<and>
   getHeelCorrectionWithInterpolation double gap_heel_tbl 4 15 (3 / 4) =
     Inr \<lparr>interpolation_used = ''bilinear'',
          interpolation_bounds = Some \<lparr>b_ullage = \<lparr>lower = 10, upper = 20\<rparr>,
                                       b_trim = None,
                                       b_heel = Some \<lparr>lower = 1 / 2, upper = 1\<rparr>\<rparr>,
          heel_correction = 3 / 4\<rparr> \<and>
   linearInterpolate double 10 (linearInterpolate double (1 / 2) 1 1 0 (3 / 4))
     20 (linearInterpolate double (1 / 2) 0 1 2 (3 / 4)) 15 = 3 / 4"
proof -
  note w = unreadable_cells_read_as_zero[where fl = double and tbl = gap_tbl
      and htbl = gap_heel_tbl and cid = 4
      and ?t1.0 = 0 and ?col1.0 = "''trim_0_0''" and ?u1.0 = 15 and ?lo1.0 = 10 and ?hi1.0 = 20
      and ?t2.0 = "1 / 4" and ?lt2.0 = "\<lparr>val = 0, column = ''trim_0_0''\<rparr>"
      and ?ut2.0 = "\<lparr>val = 1 / 2, column = ''trim_plus_0_5''\<rparr>" and ?u2.0 = 10 and ?e2.0 = 10
      and ?t3.0 = "1 / 4" and ?lt3.0 = "\<lparr>val = 0, column = ''trim_0_0''\<rparr>"
      and ?ut3.0 = "\<lparr>val = 1 / 2, column = ''trim_plus_0_5''\<rparr>" and ?u3.0 = 15
      and ?lo3.0 = 10 and ?hi3.0 = 20
      and ?h4.0 = 1 and ?col4.0 = "''heel_plus_1_0''" and ?u4.0 = 15 and ?lo4.0 = 10 and ?hi4.0 = 20
      and ?h5.0 = "3 / 4" and ?lh5.0 = "\<lparr>val = 1 / 2, column = ''heel_plus_0_5''\<rparr>"
      and ?uh5.0 = "\<lparr>val = 1, column = ''heel_plus_1_0''\<rparr>" and ?u5.0 = 10 and ?e5.0 = 10
      and ?h6.0 = "3 / 4" and ?lh6.0 = "\<lparr>val = 1 / 2, column = ''heel_plus_0_5''\<rparr>"
      and ?uh6.0 = "\<lparr>val = 1, column = ''heel_plus_1_0''\<rparr>" and ?u6.0 = 15
      and ?lo6.0 = 10 and ?hi6.0 = 20
      and u = 15 and t = 0 and h = 1]
  have i: "linearInterpolate double 10 0 20 8 15 = 4"
    "linearInterpolate double 0 0 (1 / 2) 6 (1 / 4) = 3"
    "linearInterpolate double 10 (linearInterpolate double 0 0 (1 / 2) 6 (1 / 4))
       20 (linearInterpolate double 0 8 (1 / 2) 0 (1 / 4)) 15 = 7 / 2"
    "linearInterpolate double 10 0 20 2 15 = 1"
    "linearInterpolate double (1 / 2) 1 1 0 (3 / 4) = 1 / 2"
    "linearInterpolate double 10 (linearInterpolate double (1 / 2) 1 1 0 (3 / 4))
       20 (linearInterpolate double (1 / 2) 0 1 2 (3 / 4)) 15 = 3 / 4"
    by (simp_all add: eval_arith)
  note v = w[unfolded Let_def]
  note c1 = v[THEN conjunct1, rule_format,
      OF conjI[OF example_trim(1) conjI[OF example_bounds(6) example_distinct(4)]]]
  note c2 = v[THEN conjunct2, THEN conjunct1, rule_format,
      OF conjI[OF example_trim(2) example_bounds(7)]]
  note c3 = v[THEN conjunct2, THEN conjunct2, THEN conjunct1, rule_format,
      OF conjI[OF example_trim(2) conjI[OF example_bounds(6) example_distinct(4)]]]
  note c4 = v[THEN conjunct2, THEN conjunct2, THEN conjunct2, THEN conjunct1, rule_format,
      OF conjI[OF example_heel(1) conjI[OF example_heel_bounds(1) example_distinct(5)]]]
  note c5 = v[THEN conjunct2, THEN conjunct2, THEN conjunct2, THEN conjunct2, THEN conjunct1,
      rule_format, OF conjI[OF example_heel(2) example_heel_bounds(2)]]
  note c6 = v[THEN conjunct2, THEN conjunct2, THEN conjunct2, THEN conjunct2, THEN conjunct2,
      THEN conjunct1, rule_format,
      OF conjI[OF example_heel(2) conjI[OF example_heel_bounds(1) example_distinct(5)]]]
  have k: "r \<in> set gap_tbl \<Longrightarrow> row_ullage r = 10 \<Longrightarrow> r = row_4_10"
    "r \<in> set gap_tbl \<Longrightarrow> row_ullage r = 20 \<Longrightarrow> r = row_4_20"
    "r \<in> set gap_heel_tbl \<Longrightarrow> row_ullage r = 10 \<Longrightarrow> r = heel_row_4_10"
    "r \<in> set gap_heel_tbl \<Longrightarrow> row_ullage r = 20 \<Longrightarrow> r = heel_row_4_20" for r
    by (auto simp: gap_tbl_def gap_heel_tbl_def)
  have r: "round_or_null (5 / 2) = Some 3"
    by (simp add: round_or_null_def Math_round_def)
  have j: "linearInterpolate double 10 0 20 5 15 = 5 / 2"
    "linearInterpolate double 10 0 20 4 15 = 2" "linearInterpolate double 10 1 20 3 15 = 2"
    "linearInterpolate double 10 2 20 6 15 = 4" "linearInterpolate double 10 3 20 7 15 = 5"
    "linearInterpolate double 0 8 (1 / 2) 0 (1 / 4) = 4"
    "linearInterpolate double 10 3 20 4 15 = 7 / 2"
    "linearInterpolate double (1 / 2) 0 1 2 (3 / 4) = 1"
    "linearInterpolate double 10 (1 / 2) 20 1 15 = 3 / 4"
    by (simp_all add: eval_arith)
  from c1 have s1: "getSoundingDataWithInterpolation double gap_tbl 4 15 0 =
     Inr \<lparr>interpolation_used = ''ullage_only'',
          interpolation_bounds = Some \<lparr>b_ullage = \<lparr>lower = 10, upper = 20\<rparr>,
                                       b_trim = None, b_heel = None\<rparr>,
          volume = 4, sound = Some 3, ullage = 15, lcg = 2, tcg = 2, vcg = 4, iy = 5\<rparr>"
    by - (elim exE conjE, drule (1) k(1), drule (1) k(2), simp add: gap_cells i j r)
  from c2 have s2: "getSoundingDataWithInterpolation double gap_tbl 4 10 (1 / 4) =
     Inr \<lparr>interpolation_used = ''trim_only'', interpolation_bounds = None,
          volume = 3, sound = None, ullage = 10, lcg = 0, tcg = 1, vcg = 2, iy = 3\<rparr>"
    by - (elim exE conjE, drule (1) k(1), simp add: gap_cells i j r)
  from c3 have s3: "getSoundingDataWithInterpolation double gap_tbl 4 15 (1 / 4) =
     Inr \<lparr>interpolation_used = ''bilinear'',
          interpolation_bounds = Some \<lparr>b_ullage = \<lparr>lower = 10, upper = 20\<rparr>,
                                       b_trim = Some \<lparr>lower = 0, upper = 1 / 2\<rparr>,
                                       b_heel = None\<rparr>,
          volume = 7 / 2, sound = Some 3, ullage = 15, lcg = 2, tcg = 2, vcg = 4, iy = 5\<rparr>"
    by - (elim exE conjE, drule (1) k(1), drule (1) k(2), simp add: gap_cells i j r)
  from c4 have s4: "getHeelCorrectionWithInterpolation double gap_heel_tbl 4 15 1 =
     Inr \<lparr>interpolation_used = ''ullage_only'',
          interpolation_bounds = Some \<lparr>b_ullage = \<lparr>lower = 10, upper = 20\<rparr>,
                                       b_trim = None, b_heel = None\<rparr>,
          heel_correction = 1\<rparr>"
    by - (elim exE conjE, drule (1) k(3), drule (1) k(4), simp add: gap_cells i j r)
  from c5 have s5: "getHeelCorrectionWithInterpolation double gap_heel_tbl 4 10 (3 / 4) =
     Inr \<lparr>interpolation_used = ''heel_only'', interpolation_bounds = None,
          heel_correction = 1 / 2\<rparr>"
    by - (elim exE conjE, drule (1) k(3), simp add: gap_cells i j r)
  from c6 have s6: "getHeelCorrectionWithInterpolation double gap_heel_tbl 4 15 (3 / 4) =
     Inr \<lparr>interpolation_used = ''bilinear'',
          interpolation_bounds = Some \<lparr>b_ullage = \<lparr>lower = 10, upper = 20\<rparr>,
                                       b_trim = None,
                                       b_heel = Some \<lparr>lower = 1 / 2, upper = 1\<rparr>\<rparr>,
          heel_correction = 3 / 4\<rparr>"
    by - (elim exE conjE, drule (1) k(3), drule (1) k(4), simp add: gap_cells i j r)
  show ?thesis
    by (simp add: gap_cells example_distinct example_trim example_heel example_bounds
        example_heel_bounds s1 s2 s3 s4 s5 s6 i j)
qed

end
